theory Spec2Isabelle
  imports Complex_Main
begin

section \<open>The style-based generator of \<^verbatim>\<open>stylegan2/renderer.py\<close>\<close>

text \<open>
  A shallow embedding of \<^verbatim>\<open>renderer.py\<close>. Tensors are nested lists, outermost axis
  first; their float32 elements are idealised as real numbers, so rounding, overflow and
  NaN are not modelled. Every exception the source can raise is a value of \<open>error\<close>.
  What the random generator puts out during a forward call is an explicit argument.
\<close>

type_synonym tensor1 = "real list"
type_synonym tensor2 = "real list list"
type_synonym tensor3 = "real list list list"
type_synonym tensor4 = "real list list list list"

datatype error = AssertionError | IndexError | ValueError | InvalidArgumentError

subsection \<open>Tensor primitives\<close>

text \<open>
  Modelled from the spec: \<^verbatim>\<open>commons.utils.lerp\<close> is imported by the source and is not
  part of it. The spec gives \<^verbatim>\<open>lerp(batch_mean, w_avg, d)\<close> as
  \<^verbatim>\<open>d * w_avg + (1 - d) * batch_mean\<close> and \<^verbatim>\<open>lerp(w_avg, w, coef)\<close> as
  \<^verbatim>\<open>w_avg + coef * (w - w_avg)\<close>: linear interpolation from \<open>a\<close> to \<open>b\<close>.
\<close>

definition lerp :: "real \<Rightarrow> real \<Rightarrow> real \<Rightarrow> real" where
  "lerp a b t = a + (b - a) * t"

definition reduce_mean :: "real list \<Rightarrow> real" where
  "reduce_mean xs = sum_list xs / real (length xs)"

definition rsqrt :: "real \<Rightarrow> real" where
  "rsqrt v = 1 / sqrt v"

text \<open>\<^verbatim>\<open>w[:, i]\<close>: position \<open>i\<close> of every sample; out of range it raises.\<close>

definition slice_pos :: "tensor3 \<Rightarrow> nat \<Rightarrow> error + tensor2" where
  "slice_pos w i =
     (if list_all (\<lambda>s. i < length s) w then Inr (map (\<lambda>s. s ! i) w) else Inl IndexError)"

text \<open>\<^verbatim>\<open>tf.reduce_mean(t, axis=0)\<close> of a \<open>[batch, d]\<close> tensor.\<close>

definition reduce_mean_axis0 :: "nat \<Rightarrow> tensor2 \<Rightarrow> tensor1" where
  "reduce_mean_axis0 d t = map (\<lambda>j. reduce_mean (map (\<lambda>row. row ! j) t)) [0..<d]"

definition tadd :: "tensor4 \<Rightarrow> tensor4 \<Rightarrow> tensor4" where
  "tadd y t = map2 (map2 (map2 (map2 (+)))) y t"

subsection \<open>ToRGB\<close>

text \<open>
  The layers of \<^verbatim>\<open>commons.custom_layers\<close> are not part of the source; each is a
  function held by the layer that owns it.
\<close>

record ToRGB =
  rgb_in_channel :: int
  rgb_mod_conv :: "tensor4 \<Rightarrow> tensor2 \<Rightarrow> tensor4"
  rgb_apply_bias :: "tensor4 \<Rightarrow> tensor4"

definition ToRGB_call :: "ToRGB \<Rightarrow> tensor4 \<Rightarrow> tensor4 option \<Rightarrow> tensor2 \<Rightarrow> tensor4" where
  "ToRGB_call l x y w =
     (let t = rgb_mod_conv l x w;
          t = rgb_apply_bias l t
      in case y of None \<Rightarrow> t | Some y' \<Rightarrow> tadd y' t)"

subsection \<open>Mapping\<close>

text \<open>
  The embedding, dense, bias and activation layers act on each sample of the batch on
  its own (spec 4.1, 4.2), so each is a function on one row.
\<close>

record Mapping =
  map_x_dim :: nat
  map_w_dim :: nat
  map_n_mapping :: nat
  map_n_broadcast :: nat
  x_embedding :: "tensor1 \<Rightarrow> tensor1"
  dense_layers :: "(tensor1 \<Rightarrow> tensor1) list"
  bias_layers :: "(tensor1 \<Rightarrow> tensor1) list"
  act_layers :: "(tensor1 \<Rightarrow> tensor1) list"

text \<open>
  \<^verbatim>\<open>x * tf.math.rsqrt(tf.reduce_mean(tf.square(x), axis=1, keepdims=True) + 1e-8)\<close>
\<close>

definition norm_row :: "tensor1 \<Rightarrow> tensor1" where
  "norm_row x = map (\<lambda>v. v * rsqrt (reduce_mean (map (\<lambda>u. u\<^sup>2) x) + 1 / 10 ^ 8)) x"

definition norm :: "tensor2 \<Rightarrow> tensor2" where
  "norm x = map norm_row x"

text \<open>\<^verbatim>\<open>tf.tile(x[:, np.newaxis], [1, n_broadcast, 1])\<close>\<close>

definition broadcast :: "nat \<Rightarrow> tensor2 \<Rightarrow> tensor3" where
  "broadcast n x = map (\<lambda>row. replicate n row) x"

definition mapping_block ::
  "(tensor1 \<Rightarrow> tensor1) \<times> (tensor1 \<Rightarrow> tensor1) \<times> (tensor1 \<Rightarrow> tensor1) \<Rightarrow> tensor2 \<Rightarrow> tensor2" where
  "mapping_block l x =
     (case l of (dense, apply_bias, apply_act) \<Rightarrow>
        (let x = map dense x;
             x = map apply_bias x;
             x = map apply_act x
         in x))"

definition Mapping_call :: "Mapping \<Rightarrow> tensor2 \<Rightarrow> tensor3" where
  "Mapping_call m inputs =
     (let x = map (x_embedding m) inputs;
          x = norm x;
          x = fold mapping_block (zip (dense_layers m) (zip (bias_layers m) (act_layers m))) x;
          x = broadcast (map_n_broadcast m) x
      in x)"

subsection \<open>Synthesis\<close>

record SynthesisConstBlock =
  cb_res :: int
  cb_fmaps :: int
  cb_call :: "tensor2 \<Rightarrow> tensor4"

record SynthesisBlock =
  sb_in_channel :: int
  sb_fmaps :: int
  sb_res :: int
  sb_call :: "tensor4 \<Rightarrow> tensor2 \<Rightarrow> tensor2 \<Rightarrow> tensor4"

text \<open>
  What the constructors take from \<^verbatim>\<open>commons.custom_layers\<close>: the forward function of
  each layer they build, by the arguments the source builds it with.
\<close>

record custom_layers =
  LabelEmbedding :: "tensor1 \<Rightarrow> tensor1"
  Dense :: "nat \<Rightarrow> tensor1 \<Rightarrow> tensor1"
  Bias :: "nat \<Rightarrow> tensor1 \<Rightarrow> tensor1"
  LeakyReLU :: "nat \<Rightarrow> tensor1 \<Rightarrow> tensor1"
  const_layers :: "int \<Rightarrow> int \<Rightarrow> tensor2 \<Rightarrow> tensor4"
  block_layers :: "int \<Rightarrow> int \<Rightarrow> int \<Rightarrow> tensor4 \<Rightarrow> tensor2 \<Rightarrow> tensor2 \<Rightarrow> tensor4"
  torgb_mod_conv :: "int \<Rightarrow> tensor4 \<Rightarrow> tensor2 \<Rightarrow> tensor4"
  torgb_bias :: "int \<Rightarrow> tensor4 \<Rightarrow> tensor4"
  Upscale2D :: "tensor4 \<Rightarrow> tensor4"

definition ToRGB_init :: "custom_layers \<Rightarrow> int \<Rightarrow> ToRGB" where
  "ToRGB_init L in_channel =
     \<lparr>rgb_in_channel = in_channel,
      rgb_mod_conv = torgb_mod_conv L in_channel,
      rgb_apply_bias = torgb_bias L in_channel\<rparr>"

definition Mapping_init :: "custom_layers \<Rightarrow> nat \<Rightarrow> nat \<Rightarrow> nat \<Rightarrow> nat \<Rightarrow> Mapping" where
  "Mapping_init L xd wd n_map n_bc =
     \<lparr>map_x_dim = xd, map_w_dim = wd, map_n_mapping = n_map, map_n_broadcast = n_bc,
      x_embedding = LabelEmbedding L,
      dense_layers = map (Dense L) [0..<n_map],
      bias_layers = map (Bias L) [0..<n_map],
      act_layers = map (LeakyReLU L) [0..<n_map]\<rparr>"

definition SynthesisConstBlock_init :: "custom_layers \<Rightarrow> int \<Rightarrow> int \<Rightarrow> error + SynthesisConstBlock" where
  "SynthesisConstBlock_init L fmaps res =
     (if res \<noteq> 4 then Inl AssertionError
      else Inr \<lparr>cb_res = res, cb_fmaps = fmaps, cb_call = const_layers L fmaps res\<rparr>)"

definition SynthesisBlock_init :: "custom_layers \<Rightarrow> int \<Rightarrow> int \<Rightarrow> int \<Rightarrow> SynthesisBlock" where
  "SynthesisBlock_init L in_channel fmaps res =
     \<lparr>sb_in_channel = in_channel, sb_fmaps = fmaps, sb_res = res,
      sb_call = block_layers L in_channel fmaps res\<rparr>"

record Synthesis =
  syn_w_dim :: nat
  syn_resolutions :: "int list"
  syn_featuremaps :: "int list"
  initial_block :: SynthesisConstBlock
  initial_torgb :: ToRGB
  blocks :: "SynthesisBlock list"
  torgbs :: "ToRGB list"
  upscales :: "(tensor4 \<Rightarrow> tensor4) list"

text \<open>
  The loop of \<^verbatim>\<open>Synthesis.__init__\<close> over \<^verbatim>\<open>zip(resolutions[1:], featuremaps[1:])\<close>,
  threading \<^verbatim>\<open>prev_n_f\<close>.
\<close>

fun stack_blocks :: "custom_layers \<Rightarrow> int \<Rightarrow> (int \<times> int) list \<Rightarrow> SynthesisBlock list" where
  "stack_blocks L prev_n_f [] = []"
| "stack_blocks L prev_n_f ((res, n_f) # rest) =
     SynthesisBlock_init L prev_n_f n_f res # stack_blocks L n_f rest"

definition Synthesis_init ::
  "custom_layers \<Rightarrow> nat \<Rightarrow> int list \<Rightarrow> int list \<Rightarrow> error + Synthesis" where
  "Synthesis_init L wd rs fs =
     (case rs of [] \<Rightarrow> Inl IndexError
      | res # rs' \<Rightarrow>
        (case fs of [] \<Rightarrow> Inl IndexError
         | n_f # fs' \<Rightarrow>
           (case SynthesisConstBlock_init L n_f res of Inl e \<Rightarrow> Inl e
            | Inr ib \<Rightarrow>
                Inr \<lparr>syn_w_dim = wd, syn_resolutions = rs, syn_featuremaps = fs,
                     initial_block = ib,
                     initial_torgb = ToRGB_init L n_f,
                     blocks = stack_blocks L n_f (zip rs' fs'),
                     torgbs = map (\<lambda>(res, n_f). ToRGB_init L n_f) (zip rs' fs'),
                     upscales = map (\<lambda>_. Upscale2D L) (zip rs' fs')\<rparr>)))"

text \<open>
  The loop of \<^verbatim>\<open>Synthesis.call\<close>. The last argument and the second component of the
  result are a log of the positions of \<^verbatim>\<open>w_broadcasted\<close> read so far, in order: a
  ghost value, which nothing in the computation reads.
\<close>

fun ladder ::
  "tensor3 \<Rightarrow> (SynthesisBlock \<times> (tensor4 \<Rightarrow> tensor4) \<times> ToRGB) list \<Rightarrow> nat \<Rightarrow>
   tensor4 \<Rightarrow> tensor4 \<Rightarrow> nat list \<Rightarrow> error + tensor4 \<times> nat list" where
  "ladder w [] layer_index x y reads = Inr (y, reads)"
| "ladder w ((block, upscale2d, torgb) # rest) layer_index x y reads =
     (case slice_pos w layer_index of Inl e \<Rightarrow> Inl e
      | Inr w0 \<Rightarrow>
        (case slice_pos w (layer_index + 1) of Inl e \<Rightarrow> Inl e
         | Inr w1 \<Rightarrow>
           (case slice_pos w (layer_index + 2) of Inl e \<Rightarrow> Inl e
            | Inr w2 \<Rightarrow>
               (let x = sb_call block x w0 w1;
                    y = upscale2d y;
                    y = ToRGB_call torgb x (Some y) w2
                in ladder w rest (layer_index + 2) x y
                     (reads @ [layer_index, layer_index + 1, layer_index + 2])))))"

definition Synthesis_call :: "Synthesis \<Rightarrow> tensor3 \<Rightarrow> error + tensor4 \<times> nat list" where
  "Synthesis_call s w_broadcasted =
     (case slice_pos w_broadcasted 0 of Inl e \<Rightarrow> Inl e
      | Inr w0 \<Rightarrow>
        (case slice_pos w_broadcasted 1 of Inl e \<Rightarrow> Inl e
         | Inr w1 \<Rightarrow>
            (let x = cb_call (initial_block s) w0;
                 y = ToRGB_call (initial_torgb s) x None w1
             in ladder w_broadcasted (zip (blocks s) (zip (upscales s) (torgbs s))) 1 x y [0, 1])))"

subsection \<open>Renderer\<close>

text \<open>The dictionary \<^verbatim>\<open>g_params\<close>; \<^verbatim>\<open>truncation_cutoff\<close> is an int or \<^verbatim>\<open>None\<close>.\<close>

record g_params =
  x_dim :: nat
  w_dim :: nat
  x_depth :: "nat list"
  n_mapping :: nat
  resolutions :: "int list"
  featuremaps :: "int list"
  w_ema_decay :: real
  style_mixing_prob :: real
  truncation_psi :: real
  truncation_cutoff :: "int option"

text \<open>
  The fields \<^verbatim>\<open>Renderer.__init__\<close> adds. The variable \<^verbatim>\<open>w_avg\<close> is the only state a
  forward call changes; it is passed to each operation and returned by it.
\<close>

record Renderer = g_params +
  n_broadcast :: nat
  mixing_layer_indices :: "nat list"
  truncation_coefs :: "real list"
  g_mapping :: Mapping
  synthesis :: Synthesis

definition ones :: "nat \<Rightarrow> real list" where
  "ones n = replicate n 1"

text \<open>
  Lines 211 to 218: the coefficient of each broadcast position (the axes of length 1
  of the \<open>[1, n_broadcast, 1]\<close> array are dropped).
\<close>

definition truncation_coefs_init :: "real \<Rightarrow> int option \<Rightarrow> nat \<Rightarrow> real list" where
  "truncation_coefs_init psi cutoff n =
     (case cutoff of
        None \<Rightarrow> map (\<lambda>one. one * psi) (ones n)
      | Some c \<Rightarrow>
          fold (\<lambda>index coefs. if int index < c then coefs[index := psi] else coefs)
            [0..<n] (ones n))"

definition Renderer_init :: "custom_layers \<Rightarrow> g_params \<Rightarrow> error + Renderer" where
  "Renderer_init L gp =
     (let n = length (resolutions gp) * 2;
          indices = [0..<n];
          coefs = truncation_coefs_init (truncation_psi gp) (truncation_cutoff gp) n;
          mapping = Mapping_init L (x_dim gp) (w_dim gp) (n_mapping gp) n
      in case Synthesis_init L (w_dim gp) (resolutions gp) (featuremaps gp) of
           Inl e \<Rightarrow> Inl e
         | Inr syn \<Rightarrow>
             Inr \<lparr>x_dim = x_dim gp, w_dim = w_dim gp, x_depth = x_depth gp,
                  n_mapping = n_mapping gp, resolutions = resolutions gp,
                  featuremaps = featuremaps gp, w_ema_decay = w_ema_decay gp,
                  style_mixing_prob = style_mixing_prob gp,
                  truncation_psi = truncation_psi gp,
                  truncation_cutoff = truncation_cutoff gp,
                  n_broadcast = n, mixing_layer_indices = indices,
                  truncation_coefs = coefs, g_mapping = mapping, synthesis = syn\<rparr>)"

text \<open>\<^verbatim>\<open>Renderer.build\<close>: \<^verbatim>\<open>w_avg\<close> starts as zeros of shape \<open>[w_dim]\<close>.\<close>

definition build :: "Renderer \<Rightarrow> tensor1" where
  "build r = replicate (w_dim r) 0"

definition update_moving_average_of_w :: "Renderer \<Rightarrow> tensor1 \<Rightarrow> tensor3 \<Rightarrow> error + tensor1" where
  "update_moving_average_of_w r w_avg w_broadcasted =
     (case slice_pos w_broadcasted 0 of Inl e \<Rightarrow> Inl e
      | Inr w0 \<Rightarrow>
         (let batch_avg = reduce_mean_axis0 (w_dim r) w0
          in Inr (map2 (\<lambda>a b. lerp a b (w_ema_decay r)) batch_avg w_avg)))"

text \<open>
  The random generator's output for one training call, before it is brought into the
  range a draw asks for: \<open>draw_vals f b\<close> for the category of field \<open>f\<close> of sample \<open>b\<close>
  (line 264) and \<open>draw_cutoff\<close> for the mixing cutoff (line 276). \<open>draw_u\<close> is the uniform
  draw from \<open>[0, 1)\<close> of line 275.
\<close>

record draws =
  draw_vals :: "nat \<Rightarrow> nat \<Rightarrow> nat"
  draw_u :: real
  draw_cutoff :: nat

text \<open>
  \<^verbatim>\<open>tf.random.uniform(shape, minval, maxval, dtype=int32)\<close>: an integer of
  \<open>[minval, maxval)\<close>, the generator's output reduced modulo the width of the range. It
  raises unless \<open>minval < maxval\<close>; for an output without elements the bounds are not
  looked at. The first function is the draw of shape \<open>[]\<close>, the second the draw of shape
  \<open>[batch_size]\<close>.
\<close>

definition random_uniform_int :: "nat \<Rightarrow> nat \<Rightarrow> nat \<Rightarrow> error + nat" where
  "random_uniform_int minval maxval out =
     (if minval < maxval then Inr (minval + out mod (maxval - minval))
      else Inl InvalidArgumentError)"

definition random_uniform_ints :: "nat \<Rightarrow> nat \<Rightarrow> nat \<Rightarrow> (nat \<Rightarrow> nat) \<Rightarrow> error + nat list" where
  "random_uniform_ints batch_size minval maxval out =
     (if batch_size = 0 then Inr []
      else if minval < maxval
      then Inr (map (\<lambda>b. minval + out b mod (maxval - minval)) [0..<batch_size])
      else Inl InvalidArgumentError)"

definition one_hot :: "nat \<Rightarrow> nat \<Rightarrow> tensor1" where
  "one_hot v depth = map (\<lambda>j. if j = v then 1 else 0) [0..<depth]"

text \<open>
  The loop of \<^verbatim>\<open>draw_random_x\<close> over \<^verbatim>\<open>self.x_depth\<close>; \<open>f\<close> counts the fields done.
\<close>

fun draw_fields :: "draws \<Rightarrow> nat \<Rightarrow> nat \<Rightarrow> nat list \<Rightarrow> error + tensor2 list" where
  "draw_fields D batch_size f [] = Inr []"
| "draw_fields D batch_size f (depth # rest) =
     (case random_uniform_ints batch_size 0 depth (draw_vals D f) of Inl e \<Rightarrow> Inl e
      | Inr vals \<Rightarrow>
         (let onehot = map (\<lambda>v. one_hot v depth) vals
          in case draw_fields D batch_size (Suc f) rest of Inl e \<Rightarrow> Inl e
             | Inr new_x \<Rightarrow> Inr (onehot # new_x)))"

text \<open>\<^verbatim>\<open>tf.concat\<close> of an empty list raises; along axis 1 it joins the rows.\<close>

definition draw_random_x :: "Renderer \<Rightarrow> draws \<Rightarrow> tensor2 \<Rightarrow> error + tensor2" where
  "draw_random_x r D x1 =
     (let batch_size = length x1
      in case draw_fields D batch_size 0 (x_depth r) of Inl e \<Rightarrow> Inl e
         | Inr new_x \<Rightarrow>
            if new_x = [] then Inl ValueError
            else Inr (map (\<lambda>b. concat (map (\<lambda>onehot. onehot ! b) new_x)) [0..<batch_size]))"

text \<open>
  \<^verbatim>\<open>tf.where(broadcast_to(mixing_layer_indices < cutoff, shape(w1)), w1, w2)\<close>, element
  by element.
\<close>

definition tf_where :: "nat list \<Rightarrow> nat \<Rightarrow> tensor3 \<Rightarrow> tensor3 \<Rightarrow> tensor3" where
  "tf_where indices cutoff w1 w2 =
     map2 (\<lambda>s1 s2. map (\<lambda>(i, p1, p2). map2 (\<lambda>a b. if i < cutoff then a else b) p1 p2)
                      (zip indices (zip s1 s2))) w1 w2"

text \<open>Lines 275 to 278: the cutoff is drawn from \<open>[1, n_broadcast)\<close> or is \<open>n_broadcast\<close>.\<close>

definition mixing_cutoff_index :: "Renderer \<Rightarrow> draws \<Rightarrow> error + nat" where
  "mixing_cutoff_index r D =
     (if draw_u D < style_mixing_prob r
      then random_uniform_int 1 (n_broadcast r) (draw_cutoff D)
      else Inr (n_broadcast r))"

definition style_mixing_regularization ::
  "Renderer \<Rightarrow> draws \<Rightarrow> tensor2 \<Rightarrow> tensor3 \<Rightarrow> error + tensor3" where
  "style_mixing_regularization r D x1 w_broadcasted1 =
     (case draw_random_x r D x1 of Inl e \<Rightarrow> Inl e
      | Inr x2 \<Rightarrow>
         (let w_broadcasted2 = Mapping_call (g_mapping r) x2
          in case mixing_cutoff_index r D of Inl e \<Rightarrow> Inl e
             | Inr cutoff \<Rightarrow>
                Inr (tf_where (mixing_layer_indices r) cutoff w_broadcasted1 w_broadcasted2)))"

text \<open>
  \<^verbatim>\<open>lerp(self.w_avg, w_broadcasted, self.truncation_coefs)\<close>, with \<^verbatim>\<open>w_avg\<close> broadcast
  over batch and position and the coefficients over batch and channel.
\<close>

definition truncation_trick :: "Renderer \<Rightarrow> tensor1 \<Rightarrow> tensor3 \<Rightarrow> tensor3" where
  "truncation_trick r w_avg w_broadcasted =
     map (\<lambda>sample. map2 (\<lambda>coef row. map2 (\<lambda>a b. lerp a b coef) w_avg row)
                      (truncation_coefs r) sample) w_broadcasted"

text \<open>The values the \<^verbatim>\<open>training\<close> argument can take, and Python's truth test.\<close>

datatype pyval = PyNone | PyBool bool | PyInt int | PyStr string

fun truthy :: "pyval \<Rightarrow> bool" where
  "truthy PyNone = False"
| "truthy (PyBool b) = b"
| "truthy (PyInt i) = (i \<noteq> 0)"
| "truthy (PyStr s) = (s \<noteq> [])"

text \<open>
  \<^verbatim>\<open>Renderer.call\<close>: the result, or the exception raised, and \<^verbatim>\<open>w_avg\<close> after the
  call (an exception does not undo an assignment made before it).
\<close>

definition call ::
  "Renderer \<Rightarrow> draws \<Rightarrow> tensor1 \<Rightarrow> tensor2 \<Rightarrow> pyval \<Rightarrow> (error + tensor4 \<times> nat list) \<times> tensor1" where
  "call r D w_avg inputs training =
     (let x = inputs;
          w_broadcasted = Mapping_call (g_mapping r) x
      in case (if truthy training
               then (case update_moving_average_of_w r w_avg w_broadcasted of
                       Inl e \<Rightarrow> (Inl e, w_avg)
                     | Inr w_avg' \<Rightarrow> (style_mixing_regularization r D x w_broadcasted, w_avg'))
               else (Inr w_broadcasted, w_avg)) of
           (Inl e, w_avg) \<Rightarrow> (Inl e, w_avg)
         | (Inr w_broadcasted, w_avg) \<Rightarrow>
             (let w_broadcasted = (if \<not> truthy training
                                   then truncation_trick r w_avg w_broadcasted
                                   else w_broadcasted)
              in (Synthesis_call (synthesis r) w_broadcasted, w_avg)))"

subsection \<open>Moving average of the weights of another network\<close>

text \<open>
  A variable of a network: its name, its shape and its elements in row-major order. A
  network is the two lists \<^verbatim>\<open>trainable_weights\<close> and \<^verbatim>\<open>non_trainable_weights\<close>.
\<close>

record weight =
  name :: string
  shape :: "nat list"
  val :: "real list"

record net =
  trainable_weights :: "weight list"
  non_trainable_weights :: "weight list"

definition wf_weight :: "weight \<Rightarrow> bool" where
  "wf_weight v = (length (val v) = prod_list (shape v))"

text \<open>\<^verbatim>\<open>name.split('/')\<close> and \<^verbatim>\<open>'/'.join(parts)\<close>.\<close>

fun split_slash :: "string \<Rightarrow> string list" where
  "split_slash [] = [[]]"
| "split_slash (c # cs) =
     (if c = CHR ''/'' then [] # split_slash cs
      else (case split_slash cs of [] \<Rightarrow> [[c]] | p # ps \<Rightarrow> (c # p) # ps))"

fun join_slash :: "string list \<Rightarrow> string" where
  "join_slash [] = []"
| "join_slash [p] = p"
| "join_slash (p # q # ps) = p @ CHR ''/'' # join_slash (q # ps)"

definition split_first_name :: "string \<Rightarrow> string" where
  "split_first_name nm = (let splitted = split_slash nm; new_name = join_slash (drop 1 splitted) in new_name)"

text \<open>
  \<^verbatim>\<open>lerp(sw, cw, t)\<close> on two variables, element by element and over the reals: the
  rounding of the float32 value that \<^verbatim>\<open>cw.assign\<close> stores is not modelled.
\<close>

definition lerp_weight :: "weight \<Rightarrow> weight \<Rightarrow> real \<Rightarrow> real list" where
  "lerp_weight sw cw t = map2 (\<lambda>a b. lerp a b t) (val sw) (val cw)"

text \<open>
  The inner loop: the first source variable of the same stripped name decides, and the
  \<^verbatim>\<open>break\<close> ends the search. \<^verbatim>\<open>cw.assign\<close> changes the elements only.
\<close>

fun assign_from :: "weight \<Rightarrow> weight list \<Rightarrow> real \<Rightarrow> error + weight" where
  "assign_from cw [] t = Inr cw"
| "assign_from cw (sw # sws) t =
     (if split_first_name (name cw) = split_first_name (name sw)
      then (if shape sw = shape cw then Inr (cw\<lparr>val := lerp_weight sw cw t\<rparr>)
            else Inl AssertionError)
      else assign_from cw sws t)"

text \<open>The outer loop over the variables of this network.\<close>

fun sync_weights :: "weight list \<Rightarrow> weight list \<Rightarrow> real \<Rightarrow> error + weight list" where
  "sync_weights [] sws t = Inr []"
| "sync_weights (cw # cws) sws t =
     (case assign_from cw sws t of Inl e \<Rightarrow> Inl e
      | Inr cw' \<Rightarrow>
         (case sync_weights cws sws t of Inl e \<Rightarrow> Inl e
          | Inr cws' \<Rightarrow> Inr (cw' # cws')))"

text \<open>
  \<^verbatim>\<open>set_as_moving_average_of(src_net, beta, beta_nontrainable)\<close>, for a source network
  that shares no variable with this one. The defaults are \<open>0.99\<close> and \<open>0.0\<close>. A failed
  assertion leaves the variables assigned before it changed; the model returns the
  exception alone.
\<close>

definition set_as_moving_average_of :: "net \<Rightarrow> net \<Rightarrow> real \<Rightarrow> real \<Rightarrow> error + net" where
  "set_as_moving_average_of self src_net beta beta_nontrainable =
     (case sync_weights (trainable_weights self) (trainable_weights src_net) beta of
        Inl e \<Rightarrow> Inl e
      | Inr tw \<Rightarrow>
         (case sync_weights (non_trainable_weights self) (non_trainable_weights src_net)
                 beta_nontrainable of
            Inl e \<Rightarrow> Inl e
          | Inr nw \<Rightarrow> Inr \<lparr>trainable_weights = tw, non_trainable_weights = nw\<rparr>))"

definition default_beta_nontrainable :: real where
  "default_beta_nontrainable = 0"

subsection \<open>The positions the specification gives the style cursor\<close>


subsection \<open>A small configuration\<close>

text \<open>
  Two resolutions, style codes of width two, a dense layer of two outputs and other
  layers that pass their input on; the theorems below are instantiated on it.
\<close>

definition example_layers :: custom_layers where
  "example_layers =
     \<lparr>LabelEmbedding = (\<lambda>x. x), Dense = (\<lambda>ii x. [sum_list x, 1]), Bias = (\<lambda>ii x. x),
      LeakyReLU = (\<lambda>ii x. x), const_layers = (\<lambda>fmaps res w. []),
      block_layers = (\<lambda>in_channel fmaps res x w0 w1. x),
      torgb_mod_conv = (\<lambda>in_channel x w. x), torgb_bias = (\<lambda>in_channel t. t),
      Upscale2D = (\<lambda>y. y)\<rparr>"

definition example_params :: g_params where
  "example_params =
     \<lparr>x_dim = 2, w_dim = 2, x_depth = [2], n_mapping = 2, resolutions = [4, 8],
      featuremaps = [512, 256], w_ema_decay = 1 / 2, style_mixing_prob = 9 / 10,
      truncation_psi = 1 / 2, truncation_cutoff = Some 2\<rparr>"

definition example_w :: tensor3 where
  "example_w = [[[1, 2], [3, 4], [5, 6], [7, 8]], [[2, 1], [4, 3], [6, 5], [8, 7]]]"

definition example_x :: tensor2 where
  "example_x = [[1, 0], [0, 1]]"

definition example_draws :: draws where
  "example_draws = \<lparr>draw_vals = (\<lambda>f b. f + b), draw_u = 1 / 2, draw_cutoff = 3\<rparr>"

definition example_net :: net where
  "example_net =
     \<lparr>trainable_weights = [\<lparr>name = ''g/dense/w:0'', shape = [2], val = [1, 2]\<rparr>],
      non_trainable_weights = [\<lparr>name = ''g/w_avg:0'', shape = [1], val = [1]\<rparr>]\<rparr>"

definition example_src :: net where
  "example_src =
     \<lparr>trainable_weights = [\<lparr>name = ''g_1/dense/w:0'', shape = [2], val = [5, 7]\<rparr>],
      non_trainable_weights = [\<lparr>name = ''g_1/w_avg:0'', shape = [1], val = [2]\<rparr>]\<rparr>"

subsection \<open>Notions the properties are stated with\<close>

text \<open>
  What \<open>Mapping_call\<close> computes for one sample before the broadcast: the layers act row
  by row, so the whole call is this function on every row (\<open>Mapping_call_rows\<close> below).
\<close>

definition Mapping_row :: "Mapping \<Rightarrow> tensor1 \<Rightarrow> tensor1" where
  "Mapping_row m v =
     fold (\<lambda>l u. case l of (dense, apply_bias, apply_act) \<Rightarrow> apply_act (apply_bias (dense u)))
       (zip (dense_layers m) (zip (bias_layers m) (act_layers m)))
       (norm_row (x_embedding m v))"

text \<open>A tensor of shape \<open>[B, N, D]\<close>.\<close>

definition has_shape3 :: "nat \<Rightarrow> nat \<Rightarrow> nat \<Rightarrow> tensor3 \<Rightarrow> bool" where
  "has_shape3 B N D w =
     (length w = B \<and> list_all (\<lambda>s. length s = N \<and> list_all (\<lambda>p. length p = D) s) w)"

text \<open>The root mean square of a vector.\<close>

definition rms :: "real list \<Rightarrow> real" where
  "rms x = sqrt (reduce_mean (map (\<lambda>u. u\<^sup>2) x))"

text \<open>A list in which every element is twice the one before it.\<close>

fun strictly_doubles :: "int list \<Rightarrow> bool" where
  "strictly_doubles [] = True"
| "strictly_doubles [a] = True"
| "strictly_doubles (a # b # rest) = (b = 2 * a \<and> strictly_doubles (b # rest))"

section \<open>Properties\<close>

subsection \<open>Construction\<close>

lemma Renderer_init_fields:
  assumes "Renderer_init L gp = Inr r"
  shows "n_broadcast r = length (resolutions gp) * 2"
    and "mixing_layer_indices r = [0..<n_broadcast r]"
    and "truncation_coefs r =
           truncation_coefs_init (truncation_psi gp) (truncation_cutoff gp) (n_broadcast r)"
    and "g_mapping r = Mapping_init L (x_dim gp) (w_dim gp) (n_mapping gp) (n_broadcast r)"
    and "Synthesis_init L (w_dim gp) (resolutions gp) (featuremaps gp) = Inr (synthesis r)"
    and "style_mixing_prob r = style_mixing_prob gp"
    and "w_ema_decay r = w_ema_decay gp"
    and "w_dim r = w_dim gp"
    and "x_depth r = x_depth gp"
  using assms by (auto simp: Renderer_init_def Let_def split: sum.splits)

lemma Synthesis_init_fields:
  assumes "Synthesis_init L wd rs fs = Inr s"
  shows "rs \<noteq> []" and "fs \<noteq> []" and "hd rs = 4"
    and "length (blocks s) = min (length rs - 1) (length fs - 1)"
    and "length (torgbs s) = length (blocks s)"
    and "length (upscales s) = length (blocks s)"
proof -
  have len: "length (stack_blocks L p zs) = length zs" for p zs
    by (induction zs arbitrary: p) auto
  from assms show "rs \<noteq> []" and "fs \<noteq> []" and "hd rs = 4"
    and "length (blocks s) = min (length rs - 1) (length fs - 1)"
    and "length (torgbs s) = length (blocks s)"
    and "length (upscales s) = length (blocks s)"
    by (auto simp: Synthesis_init_def SynthesisConstBlock_init_def len
        split: list.splits sum.splits if_splits)
qed

lemma example_init:
  "\<exists>r. Renderer_init example_layers example_params = Inr r"
  by (simp add: Renderer_init_def Synthesis_init_def SynthesisConstBlock_init_def
      example_params_def Let_def)

subsection \<open>The style cursor of the synthesis ladder\<close>

lemma slice_pos_ok:
  "list_all (\<lambda>s. length s = n) w \<Longrightarrow> i < n \<Longrightarrow> slice_pos w i = Inr (map (\<lambda>s. s ! i) w)"
  by (simp add: slice_pos_def list_all_iff)








subsection \<open>What construction checks\<close>

text \<open>
  C7, as amended. Construction raises AssertionError exactly when both lists are
  non-empty and the first resolution is not 4, raises IndexError exactly when one of the
  lists is empty, and succeeds exactly when both are non-empty and the first resolution
  is 4. Nothing checks that later resolutions double.
\<close>

theorem construction_checks_base_only:
  "(Renderer_init L gp = Inl AssertionError) =
     (resolutions gp \<noteq> [] \<and> featuremaps gp \<noteq> [] \<and> hd (resolutions gp) \<noteq> 4) \<and>
   (Renderer_init L gp = Inl IndexError) = (resolutions gp = [] \<or> featuremaps gp = []) \<and>
   (\<exists>r. Renderer_init L gp = Inr r) =
     (resolutions gp \<noteq> [] \<and> featuremaps gp \<noteq> [] \<and> hd (resolutions gp) = 4)"
  by (cases "resolutions gp"; cases "featuremaps gp")
    (simp_all add: Renderer_init_def Synthesis_init_def SynthesisConstBlock_init_def Let_def)

theorem construction_checks_base_only_witness:
  "strictly_doubles (resolutions example_params) \<and>
   (\<exists>r. Renderer_init example_layers example_params = Inr r) \<and>
   Renderer_init example_layers (example_params\<lparr>resolutions := [8, 16]\<rparr>) = Inl AssertionError"
  using construction_checks_base_only [of example_layers example_params]
    construction_checks_base_only [of example_layers "example_params\<lparr>resolutions := [8, 16]\<rparr>"]
  by (simp add: example_params_def)

text \<open>
  C7, as stated, fails: the list \<open>[4, 7]\<close> does not double and construction succeeds.
\<close>

theorem construction_without_doubling:
  "\<not> strictly_doubles (resolutions (example_params\<lparr>resolutions := [4, 7]\<rparr>)) \<and>
   (\<exists>r. Renderer_init example_layers (example_params\<lparr>resolutions := [4, 7]\<rparr>) = Inr r)"
  by (simp add: Renderer_init_def Synthesis_init_def SynthesisConstBlock_init_def
      example_params_def Let_def)

subsection \<open>The truncation trick\<close>

lemma fold_coefs_length:
  "length (fold (\<lambda>index coefs. if int index < c then coefs[index := psi] else coefs) [0..<n] xs)
     = length xs"
  by (induction n) simp_all

lemma fold_coefs_nth:
  "i < length xs \<Longrightarrow>
   fold (\<lambda>index coefs. if int index < c then coefs[index := psi] else coefs) [0..<n] xs ! i
     = (if i < n \<and> int i < c then psi else xs ! i)"
proof (induction n)
  case 0
  then show ?case by simp
next
  case (Suc n)
  then show ?case
    by (auto simp: fold_coefs_length nth_list_update less_Suc_eq)
qed

lemma truncation_coefs_init_nth:
  "i < n \<Longrightarrow> truncation_coefs_init psi cutoff n ! i =
     (case cutoff of None \<Rightarrow> psi | Some c \<Rightarrow> if int i < c then psi else 1)"
  by (cases cutoff) (simp_all add: truncation_coefs_init_def ones_def fold_coefs_nth)

lemma truncation_coefs_init_length: "length (truncation_coefs_init psi cutoff n) = n"
  by (cases cutoff) (simp_all add: truncation_coefs_init_def ones_def fold_coefs_length)

text \<open>
  C2. For a constructed renderer, a style tensor with \<open>n_broadcast\<close> positions per
  sample and rows as long as \<open>w_avg\<close>, the truncation trick returns at sample \<open>b\<close>,
  position \<open>i\<close>, channel \<open>d\<close> the value \<open>w_avg[d] + coef[i] * (w[b][i][d] - w_avg[d])\<close>,
  where \<open>coef[i]\<close> is \<open>truncation_psi\<close> when the cutoff is \<open>None\<close> or \<open>i\<close> is below it, and
  1 otherwise.
\<close>

theorem truncation_trick_formula:
  assumes init: "Renderer_init L gp = Inr r"
    and b: "b < length w"
    and n: "length (w ! b) = n_broadcast r"
    and i: "i < n_broadcast r"
    and d: "length (w ! b ! i) = length w_avg" "d < length w_avg"
  shows "truncation_trick r w_avg w ! b ! i ! d =
     w_avg ! d +
       (case truncation_cutoff gp of None \<Rightarrow> truncation_psi gp
        | Some c \<Rightarrow> if int i < c then truncation_psi gp else 1) * (w ! b ! i ! d - w_avg ! d)"
proof -
  note f = Renderer_init_fields [OF init]
  have len: "length (truncation_coefs r) = n_broadcast r"
    by (simp add: f(3) truncation_coefs_init_length)
  have coef: "truncation_coefs r ! i =
      (case truncation_cutoff gp of None \<Rightarrow> truncation_psi gp
       | Some c \<Rightarrow> if int i < c then truncation_psi gp else 1)"
    by (simp add: f(3) truncation_coefs_init_nth [OF i])
  have "truncation_trick r w_avg w ! b ! i ! d
      = lerp (w_avg ! d) (w ! b ! i ! d) (truncation_coefs r ! i)"
    using b n i d len by (simp add: truncation_trick_def)
  then show ?thesis
    by (simp add: coef lerp_def algebra_simps)
qed

subsection \<open>The forward call: mixing, the moving average and the training flag\<close>

lemma fold_mapping_block:
  "fold mapping_block ls x =
     map (fold (\<lambda>l u. case l of (dense, apply_bias, apply_act) \<Rightarrow> apply_act (apply_bias (dense u))) ls) x"
proof (induction ls arbitrary: x)
  case Nil
  then show ?case by simp
next
  case (Cons l ls)
  obtain d b a where l: "l = (d, b, a)" by (cases l) auto
  have "mapping_block l x = map (\<lambda>u. a (b (d u))) x"
    by (simp add: l mapping_block_def)
  then show ?case by (simp add: Cons.IH l comp_def)
qed

lemma Mapping_call_rows:
  "Mapping_call m x = map (\<lambda>v. replicate (map_n_broadcast m) (Mapping_row m v)) x"
  by (simp add: Mapping_call_def Let_def fold_mapping_block broadcast_def norm_def
      Mapping_row_def comp_def)

lemma Mapping_call_shape:
  assumes "\<And>v. length (Mapping_row m v) = d"
  shows "has_shape3 (length x) (map_n_broadcast m) d (Mapping_call m x)"
  using assms by (simp add: has_shape3_def Mapping_call_rows list_all_iff)

lemma has_shape3_nth:
  "has_shape3 B N D w \<Longrightarrow> b < B \<Longrightarrow> length (w ! b) = N"
  "has_shape3 B N D w \<Longrightarrow> b < B \<Longrightarrow> i < N \<Longrightarrow> length (w ! b ! i) = D"
  by (auto simp: has_shape3_def list_all_iff all_set_conv_all_nth)

lemma has_shape3_length: "has_shape3 B N D w \<Longrightarrow> length w = B"
  by (simp add: has_shape3_def)

lemma where_row:
  "length p1 = length p2 \<Longrightarrow> map2 (\<lambda>a b. if c then a else b) p1 p2 = (if c then p1 else p2)"
  by (induction p1 p2 rule: list_induct2) auto

lemma tf_where_nth:
  assumes s1: "has_shape3 B N D w1" and s2: "has_shape3 B N D w2"
    and b: "b < B" and i: "i < N"
  shows "tf_where [0..<N] cutoff w1 w2 ! b ! i = (if i < cutoff then w1 ! b ! i else w2 ! b ! i)"
proof -
  have l: "length (w1 ! b) = N" "length (w2 ! b) = N"
    "length (w1 ! b ! i) = D" "length (w2 ! b ! i) = D"
    using has_shape3_nth s1 s2 b i by blast+
  have "tf_where [0..<N] cutoff w1 w2 ! b ! i
      = map2 (\<lambda>a b. if i < cutoff then a else b) (w1 ! b ! i) (w2 ! b ! i)"
    using has_shape3_length [OF s1] has_shape3_length [OF s2] b i l
    by (simp add: tf_where_def)
  then show ?thesis using l by (simp add: where_row)
qed

lemma tf_where_lengths:
  assumes s1: "has_shape3 B N D w1" and s2: "has_shape3 B N D w2"
  shows "length (tf_where [0..<N] cutoff w1 w2) = B"
    and "b < B \<Longrightarrow> length (tf_where [0..<N] cutoff w1 w2 ! b) = N"
proof -
  show "length (tf_where [0..<N] cutoff w1 w2) = B"
    using has_shape3_length [OF s1] has_shape3_length [OF s2] by (simp add: tf_where_def)
  assume b: "b < B"
  have "length (w1 ! b) = N" "length (w2 ! b) = N"
    using has_shape3_nth s1 s2 b by blast+
  then show "length (tf_where [0..<N] cutoff w1 w2 ! b) = N"
    using has_shape3_length [OF s1] has_shape3_length [OF s2] b by (simp add: tf_where_def)
qed

lemma tf_where_keep:
  assumes s1: "has_shape3 B N D w1" and s2: "has_shape3 B N D w2" and c: "N \<le> cutoff"
  shows "tf_where [0..<N] cutoff w1 w2 = w1"
proof (rule nth_equalityI)
  show "length (tf_where [0..<N] cutoff w1 w2) = length w1"
    using tf_where_lengths(1) [OF s1 s2] has_shape3_length [OF s1] by simp
next
  fix b assume "b < length (tf_where [0..<N] cutoff w1 w2)"
  then have b: "b < B" using tf_where_lengths(1) [OF s1 s2] by simp
  show "tf_where [0..<N] cutoff w1 w2 ! b = w1 ! b"
  proof (rule nth_equalityI)
    show "length (tf_where [0..<N] cutoff w1 w2 ! b) = length (w1 ! b)"
      using tf_where_lengths(2) [OF s1 s2 b] has_shape3_nth(1) [OF s1 b] by simp
  next
    fix i assume "i < length (tf_where [0..<N] cutoff w1 w2 ! b)"
    then have i: "i < N" using tf_where_lengths(2) [OF s1 s2 b] by simp
    show "tf_where [0..<N] cutoff w1 w2 ! b ! i = w1 ! b ! i"
      using tf_where_nth [OF s1 s2 b i] i c by simp
  qed
qed

lemma draw_fields_ok:
  "list_all (\<lambda>depth. 0 < depth) ds \<Longrightarrow>
   \<exists>new_x. draw_fields D n f ds = Inr new_x \<and> length new_x = length ds"
proof (induction ds arbitrary: f)
  case Nil
  then show ?case by simp
next
  case (Cons depth ds)
  from Cons.prems have "0 < depth" and "list_all (\<lambda>depth. 0 < depth) ds" by simp_all
  from Cons.IH [OF this(2), of "Suc f"] obtain new_x where
    "draw_fields D n (Suc f) ds = Inr new_x" and "length new_x = length ds" by blast
  with \<open>0 < depth\<close> show ?case
    by (cases "n = 0") (simp_all add: random_uniform_ints_def Let_def)
qed

lemma draw_fields_raises:
  "0 < n \<Longrightarrow> 0 \<in> set ds \<Longrightarrow> draw_fields D n f ds = Inl InvalidArgumentError"
proof (induction ds arbitrary: f)
  case Nil
  then show ?case by simp
next
  case (Cons depth ds)
  show ?case
  proof (cases "depth = 0")
    case True
    with Cons.prems(1) show ?thesis by (simp add: random_uniform_ints_def)
  next
    case False
    with Cons.prems have "0 \<in> set ds" by simp
    from Cons.IH [OF Cons.prems(1) this, of "Suc f"] False Cons.prems(1) show ?thesis
      by (simp add: random_uniform_ints_def Let_def)
  qed
qed

lemma draw_random_x_raises:
  "x1 \<noteq> [] \<Longrightarrow> 0 \<in> set (x_depth r) \<Longrightarrow>
     draw_random_x r D x1 = Inl InvalidArgumentError"
  "x_depth r = [] \<Longrightarrow> draw_random_x r D x1 = Inl ValueError"
  by (simp_all add: draw_random_x_def draw_fields_raises Let_def)

lemma draw_random_x_ok:
  assumes "x_depth r \<noteq> []" and "list_all (\<lambda>depth. 0 < depth) (x_depth r)"
  shows "\<exists>x2. draw_random_x r D x1 = Inr x2 \<and> length x2 = length x1"
proof -
  from draw_fields_ok [OF assms(2), of D "length x1" 0] obtain new_x where
    "draw_fields D (length x1) 0 (x_depth r) = Inr new_x"
    and "length new_x = length (x_depth r)" by blast
  moreover from this(2) assms(1) have "new_x \<noteq> []" by auto
  ultimately show ?thesis by (simp add: draw_random_x_def Let_def)
qed

lemma mixing_cutoff_index_ok:
  assumes "2 \<le> n_broadcast r"
  shows "\<exists>k. mixing_cutoff_index r D = Inr k \<and> 1 \<le> k \<and> k \<le> n_broadcast r"
proof (cases "draw_u D < style_mixing_prob r")
  case True
  have "draw_cutoff D mod (n_broadcast r - 1) < n_broadcast r - 1"
    using assms by (intro mod_less_divisor) linarith
  then have "1 + draw_cutoff D mod (n_broadcast r - 1) \<le> n_broadcast r" by linarith
  with True assms show ?thesis
    by (simp add: mixing_cutoff_index_def random_uniform_int_def)
next
  case False
  with assms show ?thesis by (simp add: mixing_cutoff_index_def)
qed


lemma init_mapping_n:
  "Renderer_init L gp = Inr r \<Longrightarrow> map_n_broadcast (g_mapping r) = n_broadcast r"
  by (simp add: Renderer_init_fields(4) Mapping_init_def)

lemma init_n_broadcast_ge2: "Renderer_init L gp = Inr r \<Longrightarrow> 2 \<le> n_broadcast r"
proof -
  assume init: "Renderer_init L gp = Inr r"
  note f = Renderer_init_fields [OF init]
  have "resolutions gp \<noteq> []" by (rule Synthesis_init_fields(1) [OF f(5)])
  then have "1 \<le> length (resolutions gp)" by (cases "resolutions gp") simp_all
  then show ?thesis using f(1) by linarith
qed

text \<open>
  C3. For a constructed renderer with a non-empty \<open>x_depth\<close> of positive depths, a
  uniform draw in \<open>[0, 1)\<close> and style tensors of shape \<open>[batch, n_broadcast, w_dim]\<close>: with
  \<open>style_mixing_prob = 0\<close> style mixing returns the first tensor unchanged; with
  \<open>style_mixing_prob = 1\<close> and a drawn cutoff of 1, position 0 of the result is position
  0 of the first tensor and every position from 1 to \<open>n_broadcast - 1\<close> is that position
  of the second tensor, the mapping of the drawn conditioning input.
\<close>

theorem style_mixing_extremes:
  assumes init: "Renderer_init L gp = Inr r"
    and depth: "x_depth gp \<noteq> []"
    and positive: "list_all (\<lambda>depth. 0 < depth) (x_depth gp)"
    and u: "0 \<le> draw_u D" "draw_u D < 1"
    and width: "\<And>v. length (Mapping_row (g_mapping r) v) = w_dim gp"
    and shape: "has_shape3 (length x1) (n_broadcast r) (w_dim gp) w_broadcast1"
  shows "(style_mixing_prob gp = 0 \<longrightarrow>
            style_mixing_regularization r D x1 w_broadcast1 = Inr w_broadcast1) \<and>
         (style_mixing_prob gp = 1 \<and>
          random_uniform_int 1 (n_broadcast r) (draw_cutoff D) = Inr 1 \<longrightarrow>
            (\<exists>x2 mixed. draw_random_x r D x1 = Inr x2 \<and>
               style_mixing_regularization r D x1 w_broadcast1 = Inr mixed \<and>
               (\<forall>b < length x1. mixed ! b ! 0 = w_broadcast1 ! b ! 0 \<and>
                  (\<forall>i. 1 \<le> i \<and> i < n_broadcast r \<longrightarrow>
                     mixed ! b ! i = Mapping_call (g_mapping r) x2 ! b ! i))))"
proof -
  note f = Renderer_init_fields [OF init]
  from depth positive f(9) have "x_depth r \<noteq> []"
    and "list_all (\<lambda>depth. 0 < depth) (x_depth r)" by simp_all
  from draw_random_x_ok [OF this] obtain x2 where
    x2: "draw_random_x r D x1 = Inr x2" and lx2: "length x2 = length x1" by blast
  let ?w2 = "Mapping_call (g_mapping r) x2"
  have s2: "has_shape3 (length x1) (n_broadcast r) (w_dim gp) ?w2"
    using Mapping_call_shape [of "g_mapping r" "w_dim gp" x2] width lx2 init_mapping_n [OF init]
    by simp
  have smr: "style_mixing_regularization r D x1 w_broadcast1 =
      Inr (tf_where [0..<n_broadcast r] k w_broadcast1 ?w2)"
    if "mixing_cutoff_index r D = Inr k" for k
    using that by (simp add: style_mixing_regularization_def x2 f(2) Let_def)
  have zero: "style_mixing_regularization r D x1 w_broadcast1 = Inr w_broadcast1"
    if "style_mixing_prob gp = 0"
  proof -
    have "mixing_cutoff_index r D = Inr (n_broadcast r)"
      using that u(1) by (simp add: mixing_cutoff_index_def f(6))
    from smr [OF this] show ?thesis
      using tf_where_keep [OF shape s2, of "n_broadcast r"] by simp
  qed
  have one: "\<exists>x2 mixed. draw_random_x r D x1 = Inr x2 \<and>
      style_mixing_regularization r D x1 w_broadcast1 = Inr mixed \<and>
      (\<forall>b < length x1. mixed ! b ! 0 = w_broadcast1 ! b ! 0 \<and>
         (\<forall>i. 1 \<le> i \<and> i < n_broadcast r \<longrightarrow>
            mixed ! b ! i = Mapping_call (g_mapping r) x2 ! b ! i))"
    if "style_mixing_prob gp = 1 \<and>
        random_uniform_int 1 (n_broadcast r) (draw_cutoff D) = Inr 1"
  proof -
    have c: "mixing_cutoff_index r D = Inr 1"
      using that u(2) by (simp add: mixing_cutoff_index_def f(6))
    let ?mixed = "tf_where [0..<n_broadcast r] 1 w_broadcast1 ?w2"
    have n: "0 < n_broadcast r" using init_n_broadcast_ge2 [OF init] by linarith
    have "?mixed ! b ! 0 = w_broadcast1 ! b ! 0" if "b < length x1" for b
      using tf_where_nth [OF shape s2 that n, of 1] by simp
    moreover have "?mixed ! b ! i = ?w2 ! b ! i"
      if "b < length x1" "1 \<le> i \<and> i < n_broadcast r" for b i
      using tf_where_nth [OF shape s2 that(1), of i 1] that(2) by simp
    ultimately show ?thesis using x2 smr [OF c] by auto
  qed
  from zero one show ?thesis by blast
qed


lemma update_ok:
  assumes init: "Renderer_init L gp = Inr r"
  shows "update_moving_average_of_w r w_avg (Mapping_call (g_mapping r) x) =
     Inr (map2 (\<lambda>a b. lerp a b (w_ema_decay gp))
            (reduce_mean_axis0 (w_dim gp) (map (\<lambda>s. s ! 0) (Mapping_call (g_mapping r) x)))
            w_avg)"
proof -
  note f = Renderer_init_fields [OF init]
  have "0 < n_broadcast r" using init_n_broadcast_ge2 [OF init] by linarith
  moreover have "list_all (\<lambda>s. length s = n_broadcast r) (Mapping_call (g_mapping r) x)"
    by (simp add: Mapping_call_rows init_mapping_n [OF init] list_all_iff)
  ultimately have "slice_pos (Mapping_call (g_mapping r) x) 0 =
      Inr (map (\<lambda>s. s ! 0) (Mapping_call (g_mapping r) x))"
    by (rule slice_pos_ok [rotated])
  then show ?thesis
    by (simp add: update_moving_average_of_w_def Let_def f(7) f(8))
qed

lemma call_training:
  assumes "truthy t"
    and "update_moving_average_of_w r w_avg (Mapping_call (g_mapping r) x) = Inr w_avg'"
  shows "call r D w_avg x t =
     (case style_mixing_regularization r D x (Mapping_call (g_mapping r) x) of
        Inl e \<Rightarrow> (Inl e, w_avg')
      | Inr w' \<Rightarrow> (Synthesis_call (synthesis r) w', w_avg'))"
  using assms by (simp add: call_def Let_def split: sum.splits)

lemma call_inference:
  "\<not> truthy t \<Longrightarrow> call r D w_avg x t =
     (Synthesis_call (synthesis r) (truncation_trick r w_avg (Mapping_call (g_mapping r) x)),
      w_avg)"
  by (simp add: call_def Let_def)

text \<open>
  C4. A call with a true training flag leaves in \<open>w_avg\<close>, at each channel \<open>d\<close>,
  \<open>w_ema_decay * w_avg[d] + (1 - w_ema_decay) * mean\<close>, where \<open>mean\<close> is the batch mean
  of channel \<open>d\<close> at position 0 of the mapping output, before any mixing; a call with a
  false flag leaves \<open>w_avg\<close> as it was.
\<close>

theorem w_avg_update:
  assumes init: "Renderer_init L gp = Inr r"
    and len: "length w_avg = w_dim gp"
    and batch: "x \<noteq> []"
    and width: "\<And>v. length (Mapping_row (g_mapping r) v) = w_dim gp"
  shows "(truthy t \<longrightarrow>
            length (snd (call r D w_avg x t)) = w_dim gp \<and>
            (\<forall>d < w_dim gp. snd (call r D w_avg x t) ! d =
               w_ema_decay gp * w_avg ! d +
               (1 - w_ema_decay gp) *
                 reduce_mean (map (\<lambda>s. s ! 0 ! d) (Mapping_call (g_mapping r) x)))) \<and>
         (\<not> truthy t \<longrightarrow> snd (call r D w_avg x t) = w_avg)"
proof -
  let ?w = "Mapping_call (g_mapping r) x"
  let ?new = "map2 (\<lambda>a b. lerp a b (w_ema_decay gp))
      (reduce_mean_axis0 (w_dim gp) (map (\<lambda>s. s ! 0) ?w)) w_avg"
  have snd_t: "snd (call r D w_avg x t) = ?new" if "truthy t"
    using call_training [OF that update_ok [OF init]]
    by (simp split: sum.splits)
  have l: "length ?new = w_dim gp"
    by (simp add: reduce_mean_axis0_def len)
  have v: "?new ! d = w_ema_decay gp * w_avg ! d +
      (1 - w_ema_decay gp) * reduce_mean (map (\<lambda>s. s ! 0 ! d) ?w)" if "d < w_dim gp" for d
    using that len by (simp add: reduce_mean_axis0_def lerp_def comp_def algebra_simps)
  show ?thesis
    using snd_t l v call_inference [of t r D w_avg x] by simp
qed

text \<open>
  C10. In a training call of a constructed renderer with a non-empty \<open>x_depth\<close> of
  positive depths, whatever the random generator puts out, the mixing cutoff is computed
  and is at least 1, and the tensor handed to the synthesis network has at position 0 the
  mapping output of the conditioning input at position 0.
\<close>

theorem position0_unmixed:
  assumes init: "Renderer_init L gp = Inr r"
    and t: "truthy t"
    and depth: "x_depth gp \<noteq> []"
    and positive: "list_all (\<lambda>depth. 0 < depth) (x_depth gp)"
    and width: "\<And>v. length (Mapping_row (g_mapping r) v) = w_dim gp"
  shows "\<exists>k w'. mixing_cutoff_index r D = Inr k \<and> 1 \<le> k \<and>
      style_mixing_regularization r D x (Mapping_call (g_mapping r) x) = Inr w' \<and>
      fst (call r D w_avg x t) = Synthesis_call (synthesis r) w' \<and>
      slice_pos w' 0 = slice_pos (Mapping_call (g_mapping r) x) 0"
proof -
  note f = Renderer_init_fields [OF init]
  let ?w = "Mapping_call (g_mapping r) x"
  let ?B = "length x" and ?N = "n_broadcast r"
  have N: "0 < ?N" using init_n_broadcast_ge2 [OF init] by linarith
  from mixing_cutoff_index_ok [OF init_n_broadcast_ge2 [OF init], of D] obtain k where
    k: "mixing_cutoff_index r D = Inr k" and c: "1 \<le> k" by blast
  from depth positive f(9) have "x_depth r \<noteq> []"
    and "list_all (\<lambda>depth. 0 < depth) (x_depth r)" by simp_all
  from draw_random_x_ok [OF this] obtain x2 where
    x2: "draw_random_x r D x = Inr x2" and lx2: "length x2 = length x" by blast
  let ?w2 = "Mapping_call (g_mapping r) x2"
  let ?mixed = "tf_where [0..<?N] k ?w ?w2"
  have s1: "has_shape3 ?B ?N (w_dim gp) ?w"
    using Mapping_call_shape [of "g_mapping r" "w_dim gp" x] width init_mapping_n [OF init]
    by simp
  have s2: "has_shape3 ?B ?N (w_dim gp) ?w2"
    using Mapping_call_shape [of "g_mapping r" "w_dim gp" x2] width lx2 init_mapping_n [OF init]
    by simp
  have smr: "style_mixing_regularization r D x ?w = Inr ?mixed"
    by (simp add: style_mixing_regularization_def x2 k f(2) Let_def)
  have lm: "length ?mixed = ?B" by (rule tf_where_lengths(1) [OF s1 s2])
  have "list_all (\<lambda>s. length s = ?N) ?mixed"
    using tf_where_lengths(2) [OF s1 s2] lm
    by (simp add: list_all_iff all_set_conv_all_nth)
  then have sm: "slice_pos ?mixed 0 = Inr (map (\<lambda>s. s ! 0) ?mixed)"
    using N by (rule slice_pos_ok)
  have "list_all (\<lambda>s. length s = ?N) ?w"
    using s1 by (simp add: has_shape3_def list_all_iff)
  then have sw: "slice_pos ?w 0 = Inr (map (\<lambda>s. s ! 0) ?w)"
    using N by (rule slice_pos_ok)
  have "map (\<lambda>s. s ! 0) ?mixed = map (\<lambda>s. s ! 0) ?w"
  proof (rule nth_equalityI)
    show "length (map (\<lambda>s. s ! 0) ?mixed) = length (map (\<lambda>s. s ! 0) ?w)"
      using lm has_shape3_length [OF s1] by simp
  next
    fix b assume "b < length (map (\<lambda>s. s ! 0) ?mixed)"
    then have b: "b < ?B" using lm by simp
    have "?mixed ! b ! 0 = ?w ! b ! 0"
      using tf_where_nth [OF s1 s2 b N, of k] c by simp
    then show "map (\<lambda>s. s ! 0) ?mixed ! b = map (\<lambda>s. s ! 0) ?w ! b"
      using b lm has_shape3_length [OF s1] by simp
  qed
  with sm sw have pos0: "slice_pos ?mixed 0 = slice_pos ?w 0" by simp
  have "fst (call r D w_avg x t) = Synthesis_call (synthesis r) ?mixed"
    using call_training [OF t update_ok [OF init]] smr by simp
  with k c smr pos0 show ?thesis by blast
qed

text \<open>
  C9. A call whose training flag is not true (\<open>None\<close>, \<open>False\<close>, 0, the empty string)
  applies the truncation trick to the mapping output, uses no random draw and returns
  \<open>w_avg\<close> unchanged, as a call with \<open>False\<close> does; a call whose flag is true does what
  a call with \<open>True\<close> does.
\<close>

theorem falsy_training_is_inference:
  "(\<not> truthy t \<longrightarrow>
      call r D w_avg x t =
        (Synthesis_call (synthesis r)
           (truncation_trick r w_avg (Mapping_call (g_mapping r) x)), w_avg) \<and>
      call r D w_avg x t = call r D' w_avg x (PyBool False)) \<and>
   (truthy t \<longrightarrow> call r D w_avg x t = call r D w_avg x (PyBool True))"
  by (cases "truthy t") (auto simp: call_def Let_def split: sum.splits)

subsection \<open>The moving average of weights\<close>

lemma split_slash_nonempty: "split_slash s \<noteq> []"
  by (induction s) (auto split: list.splits)

lemma split_slash_prefix:
  "CHR ''/'' \<notin> set p \<Longrightarrow> split_slash (p @ CHR ''/'' # rest) = p # split_slash rest"
  by (induction p) (auto split: list.splits)

lemma split_slash_plain: "CHR ''/'' \<notin> set s \<Longrightarrow> split_slash s = [s]"
  by (induction s) (auto split: list.splits)

lemma join_split_slash: "join_slash (split_slash s) = s"
proof (induction s)
  case Nil
  then show ?case by simp
next
  case (Cons c s)
  show ?case
  proof (cases "c = CHR ''/''")
    case True
    then show ?thesis
      using Cons.IH split_slash_nonempty [of s] by (cases "split_slash s") simp_all
  next
    case False
    obtain p ps where ps: "split_slash s = p # ps"
      using split_slash_nonempty [of s] by (cases "split_slash s") auto
    with Cons.IH False show ?thesis by (cases ps) auto
  qed
qed

lemma split_first_name_prefix:
  "CHR ''/'' \<notin> set p \<Longrightarrow> split_first_name (p @ CHR ''/'' # rest) = rest"
  by (simp add: split_first_name_def split_slash_prefix join_split_slash Let_def)

lemma split_first_name_plain: "CHR ''/'' \<notin> set s \<Longrightarrow> split_first_name s = []"
  by (simp add: split_first_name_def split_slash_plain Let_def)

lemma assign_from_find:
  "assign_from cw sws t =
     (case find (\<lambda>sw. split_first_name (name cw) = split_first_name (name sw)) sws of
        None \<Rightarrow> Inr cw
      | Some sw \<Rightarrow> if shape sw = shape cw
                   then Inr (cw\<lparr>val := map2 (\<lambda>a b. lerp a b t) (val sw) (val cw)\<rparr>)
                   else Inl AssertionError)"
  by (induction sws) (auto simp: lerp_weight_def)

lemma sync_weights_find:
  "sync_weights cws sws t =
     (if \<exists>cw \<in> set cws.
           (case find (\<lambda>sw. split_first_name (name cw) = split_first_name (name sw)) sws of
              None \<Rightarrow> False | Some sw \<Rightarrow> shape sw \<noteq> shape cw)
      then Inl AssertionError
      else Inr (map (\<lambda>cw.
             (case find (\<lambda>sw. split_first_name (name cw) = split_first_name (name sw)) sws of
                None \<Rightarrow> cw
              | Some sw \<Rightarrow> cw\<lparr>val := map2 (\<lambda>a b. lerp a b t) (val sw) (val cw)\<rparr>)) cws))"
proof (induction cws)
  case Nil
  then show ?case by simp
next
  case (Cons cw cws)
  show ?case
    by (simp add: Cons.IH assign_from_find split: option.splits)
qed

text \<open>
  C6. Names are compared with the text up to the first slash removed. The sync raises
  AssertionError exactly when some variable of this network has a first match of another
  shape; otherwise each trainable variable with a match becomes
  \<open>lerp(source, primary, beta)\<close>, each non-trainable one
  \<open>lerp(source, primary, beta_nontrainable)\<close>, with the first source variable of that
  name as the source, and a variable without a match is left as it was.
\<close>

theorem ema_sync_by_name:
  "(CHR ''/'' \<notin> set p \<longrightarrow> split_first_name (p @ CHR ''/'' # rest) = rest) \<and>
   set_as_moving_average_of self src_net beta beta_nontrainable =
     (if (\<exists>cw \<in> set (trainable_weights self).
            (case find (\<lambda>sw. split_first_name (name cw) = split_first_name (name sw))
                    (trainable_weights src_net) of
               None \<Rightarrow> False | Some sw \<Rightarrow> shape sw \<noteq> shape cw)) \<or>
         (\<exists>cw \<in> set (non_trainable_weights self).
            (case find (\<lambda>sw. split_first_name (name cw) = split_first_name (name sw))
                    (non_trainable_weights src_net) of
               None \<Rightarrow> False | Some sw \<Rightarrow> shape sw \<noteq> shape cw))
      then Inl AssertionError
      else Inr
        \<lparr>trainable_weights = map (\<lambda>cw.
           (case find (\<lambda>sw. split_first_name (name cw) = split_first_name (name sw))
                   (trainable_weights src_net) of
              None \<Rightarrow> cw
            | Some sw \<Rightarrow> cw\<lparr>val := map2 (\<lambda>a b. lerp a b beta) (val sw) (val cw)\<rparr>))
           (trainable_weights self),
         non_trainable_weights = map (\<lambda>cw.
           (case find (\<lambda>sw. split_first_name (name cw) = split_first_name (name sw))
                   (non_trainable_weights src_net) of
              None \<Rightarrow> cw
            | Some sw \<Rightarrow> cw\<lparr>val := map2 (\<lambda>a b. lerp a b beta_nontrainable) (val sw) (val cw)\<rparr>))
           (non_trainable_weights self)\<rparr>)"
  by (simp add: split_first_name_prefix set_as_moving_average_of_def sync_weights_find)


lemma map2_lerp_0: "length xs = length ys \<Longrightarrow> map2 (\<lambda>a b. lerp a b 0) xs ys = xs"
  by (induction xs ys rule: list_induct2) (simp_all add: lerp_def)

lemma map2_lerp_1: "length xs = length ys \<Longrightarrow> map2 (\<lambda>a b. lerp a b 1) xs ys = ys"
  by (induction xs ys rule: list_induct2) (simp_all add: lerp_def)

lemma first_match_facts:
  assumes "find (\<lambda>sw. split_first_name (name cw) = split_first_name (name sw)) sws = Some sw"
    and "sync_weights cws sws t = Inr res" and "cw \<in> set cws"
    and "list_all wf_weight cws" and "list_all wf_weight sws"
  shows "length (val sw) = length (val cw)"
proof -
  from assms(1) have "sw \<in> set sws" by (auto simp: find_Some_iff)
  with assms(5) have "wf_weight sw" by (simp add: list_all_iff)
  moreover from assms(3,4) have "wf_weight cw" by (simp add: list_all_iff)
  moreover have "shape sw = shape cw"
  proof (rule ccontr)
    assume "shape sw \<noteq> shape cw"
    with assms(1,3) have "sync_weights cws sws t = Inl AssertionError"
      by (subst sync_weights_find) (auto intro!: bexI [of _ cw])
    with assms(2) show False by simp
  qed
  ultimately show ?thesis by (simp add: wf_weight_def)
qed

lemma sync_weights_result:
  assumes "sync_weights cws sws t = Inr res"
  shows "res = map (\<lambda>cw.
      (case find (\<lambda>sw. split_first_name (name cw) = split_first_name (name sw)) sws of
         None \<Rightarrow> cw
       | Some sw \<Rightarrow> cw\<lparr>val := map2 (\<lambda>a b. lerp a b t) (val sw) (val cw)\<rparr>)) cws"
  using assms by (subst (asm) sync_weights_find) (simp split: if_splits)

lemma sync_weights_zero:
  assumes ok: "sync_weights cws sws 0 = Inr res"
    and wf: "list_all wf_weight cws" "list_all wf_weight sws"
    and i: "i < length cws"
    and m: "find (\<lambda>sw. split_first_name (name (cws ! i)) = split_first_name (name sw)) sws
             = Some sw"
  shows "val (res ! i) = val sw"
proof -
  have "cws ! i \<in> set cws" using i by simp
  from first_match_facts [OF m ok this wf]
  have "map2 (\<lambda>a b. lerp a b 0) (val sw) (val (cws ! i)) = val sw"
    by (rule map2_lerp_0)
  then show ?thesis
    using sync_weights_result [OF ok] i m by simp
qed

lemma sync_weights_one:
  assumes ok: "sync_weights cws sws 1 = Inr res"
    and wf: "list_all wf_weight cws" "list_all wf_weight sws"
  shows "res = cws"
proof -
  have "(case find (\<lambda>sw. split_first_name (name cw) = split_first_name (name sw)) sws of
           None \<Rightarrow> cw
         | Some sw \<Rightarrow> cw\<lparr>val := map2 (\<lambda>a b. lerp a b 1) (val sw) (val cw)\<rparr>) = cw"
    if "cw \<in> set cws" for cw
  proof (cases "find (\<lambda>sw. split_first_name (name cw) = split_first_name (name sw)) sws")
    case None
    then show ?thesis by simp
  next
    case (Some sw)
    from first_match_facts [OF Some ok that wf]
    have "map2 (\<lambda>a b. lerp a b 1) (val sw) (val cw) = val cw"
      by (rule map2_lerp_1)
    then show ?thesis using Some by simp
  qed
  then have "map (\<lambda>cw.
      (case find (\<lambda>sw. split_first_name (name cw) = split_first_name (name sw)) sws of
         None \<Rightarrow> cw
       | Some sw \<Rightarrow> cw\<lparr>val := map2 (\<lambda>a b. lerp a b 1) (val sw) (val cw)\<rparr>)) cws = cws"
    by (simp add: map_idI)
  with sync_weights_result [OF ok] show ?thesis by simp
qed

lemma set_as_moving_average_of_Inr:
  assumes "set_as_moving_average_of self src_net beta beta_nontrainable = Inr self'"
  shows "sync_weights (trainable_weights self) (trainable_weights src_net) beta
           = Inr (trainable_weights self')"
    and "sync_weights (non_trainable_weights self) (non_trainable_weights src_net)
           beta_nontrainable = Inr (non_trainable_weights self')"
  using assms by (auto simp: set_as_moving_average_of_def split: sum.splits)

text \<open>
  C5, as amended. In exact arithmetic, that is with the elements taken as real numbers
  and \<open>lerp(a, b, t) = a + (b - a) * t\<close> computed without rounding: after a sync that
  raised nothing, between networks whose variables have as many elements as their shapes
  say, with \<open>beta = 0\<close> every trainable variable with a match has the elements of its
  first match, and with \<open>beta = 1\<close> every trainable variable is unchanged; the
  non-trainable variables follow \<open>beta_nontrainable\<close> in the same way, whatever
  \<open>beta\<close> is. What rounding does to \<open>sw + (cw - sw) * beta\<close> in float32 is outside this
  statement.
\<close>

theorem ema_sync_extremes:
  assumes ok: "set_as_moving_average_of self src_net beta beta_nontrainable = Inr self'"
    and wf: "list_all wf_weight (trainable_weights self)"
      "list_all wf_weight (trainable_weights src_net)"
      "list_all wf_weight (non_trainable_weights self)"
      "list_all wf_weight (non_trainable_weights src_net)"
  shows
    "(beta = 0 \<longrightarrow>
        (\<forall>i < length (trainable_weights self). \<forall>sw.
           find (\<lambda>sw. split_first_name (name (trainable_weights self ! i)) =
                       split_first_name (name sw)) (trainable_weights src_net) = Some sw \<longrightarrow>
           val (trainable_weights self' ! i) = val sw)) \<and>
     (beta = 1 \<longrightarrow> trainable_weights self' = trainable_weights self) \<and>
     (beta_nontrainable = 0 \<longrightarrow>
        (\<forall>i < length (non_trainable_weights self). \<forall>sw.
           find (\<lambda>sw. split_first_name (name (non_trainable_weights self ! i)) =
                       split_first_name (name sw)) (non_trainable_weights src_net) = Some sw \<longrightarrow>
           val (non_trainable_weights self' ! i) = val sw)) \<and>
     (beta_nontrainable = 1 \<longrightarrow> non_trainable_weights self' = non_trainable_weights self)"
proof -
  note s = set_as_moving_average_of_Inr [OF ok]
  show ?thesis
    using sync_weights_zero [OF _ wf(1,2)] sync_weights_one [OF _ wf(1,2)]
      sync_weights_zero [OF _ wf(3,4)] sync_weights_one [OF _ wf(3,4)] s
    by (intro conjI impI allI) (simp_all only:)
qed

text \<open>
  C5, as stated, fails: with \<open>beta = 1\<close> and \<open>beta_nontrainable\<close> at its default, the
  non-trainable variable of the example network takes the value of the source.
\<close>

theorem ema_sync_beta_one_changes_non_trainable:
  "\<exists>self'. set_as_moving_average_of example_net example_src 1 default_beta_nontrainable
              = Inr self' \<and>
     map val (non_trainable_weights example_net) = [[1]] \<and>
     map val (non_trainable_weights self') = [[2]]"
  by (simp add: set_as_moving_average_of_def example_net_def example_src_def
      default_beta_nontrainable_def split_first_name_def lerp_weight_def lerp_def Let_def)

subsection \<open>The normalisation of the embedding\<close>

lemma mean_square_nonneg: "0 \<le> reduce_mean (map (\<lambda>u. u\<^sup>2) x)"
  by (auto simp: reduce_mean_def intro!: divide_nonneg_nonneg sum_list_nonneg)

lemma mean_square_norm_row:
  "reduce_mean (map (\<lambda>u. u\<^sup>2) (norm_row x)) =
     reduce_mean (map (\<lambda>u. u\<^sup>2) x) / (reduce_mean (map (\<lambda>u. u\<^sup>2) x) + 1 / 10 ^ 8)"
proof -
  let ?m = "reduce_mean (map (\<lambda>u. u\<^sup>2) x)"
  let ?e = "1 / 10 ^ 8 :: real"
  have pos: "0 < ?m + ?e" using mean_square_nonneg [of x] by simp
  define k where "k = rsqrt (?m + ?e)"
  have c: "k\<^sup>2 = 1 / (?m + ?e)"
    using pos by (simp add: k_def rsqrt_def power_divide)
  have n: "norm_row x = map (\<lambda>v. v * k) x"
    by (simp only: norm_row_def k_def)
  have "map (\<lambda>u. u\<^sup>2) (norm_row x) = map (\<lambda>v. v\<^sup>2 * k\<^sup>2) x"
    by (simp add: n comp_def power_mult_distrib)
  then have "sum_list (map (\<lambda>u. u\<^sup>2) (norm_row x)) = sum_list (map (\<lambda>u. u\<^sup>2) x) * k\<^sup>2"
    by (simp only: sum_list_mult_const)
  then have "sum_list (map (\<lambda>u. u\<^sup>2) (norm_row x)) =
      sum_list (map (\<lambda>u. u\<^sup>2) x) * (1 / (?m + ?e))"
    by (simp only: c)
  moreover have "length (norm_row x) = length x"
    by (simp add: norm_row_def)
  ultimately have "reduce_mean (map (\<lambda>u. u\<^sup>2) (norm_row x)) =
      sum_list (map (\<lambda>u. u\<^sup>2) x) * (1 / (?m + ?e)) / real (length x)"
    by (simp only: reduce_mean_def length_map)
  also have "\<dots> = ?m / (?m + ?e)"
    by (simp only: reduce_mean_def length_map) simp
  finally show ?thesis .
qed

lemma le_sqrt_unit: "0 \<le> q \<Longrightarrow> q \<le> 1 \<Longrightarrow> q \<le> sqrt q"
proof -
  assume a: "0 \<le> q" "q \<le> 1"
  have s0: "0 \<le> sqrt q" using a by simp
  have s1: "sqrt q \<le> 1" using a by simp
  have "sqrt q * sqrt q \<le> sqrt q * 1" using s1 s0 by (rule mult_left_mono)
  then show ?thesis using a by simp
qed

text \<open>
  C8, as amended. The normalisation divides each element of a non-empty row by
  \<open>sqrt(mean(x^2) + 1e-8)\<close>. In real arithmetic the square of the root mean square of
  the result is \<open>m / (m + 1e-8)\<close> with \<open>m = mean(x^2)\<close>: the root mean square is below 1,
  and when \<open>m\<close> is positive it is at least \<open>1 - 1e-8 / m\<close>, so it is close to 1 only when
  \<open>m\<close> is large against \<open>1e-8\<close>.
\<close>

theorem norm_row_rms:
  assumes nonempty: "x \<noteq> []"
  shows "norm_row x = map (\<lambda>v. v / sqrt (reduce_mean (map (\<lambda>u. u\<^sup>2) x) + 1 / 10 ^ 8)) x \<and>
   (rms (norm_row x))\<^sup>2 =
     reduce_mean (map (\<lambda>u. u\<^sup>2) x) / (reduce_mean (map (\<lambda>u. u\<^sup>2) x) + 1 / 10 ^ 8) \<and>
   rms (norm_row x) < 1 \<and>
   (0 < reduce_mean (map (\<lambda>u. u\<^sup>2) x) \<longrightarrow>
      1 - (1 / 10 ^ 8) / reduce_mean (map (\<lambda>u. u\<^sup>2) x) \<le> rms (norm_row x))"
proof -
  let ?m = "reduce_mean (map (\<lambda>u. u\<^sup>2) x)"
  let ?e = "1 / 10 ^ 8 :: real"
  let ?q = "?m / (?m + ?e)"
  have m0: "0 \<le> ?m" by (rule mean_square_nonneg)
  have e0: "0 < ?e" by simp
  have pos: "0 < ?m + ?e" using m0 e0 by linarith
  have q0: "0 \<le> ?q" using m0 pos by simp
  have q1: "?q < 1" using pos e0 by (simp add: divide_less_eq)
  have formula: "norm_row x = map (\<lambda>v. v / sqrt (?m + ?e)) x"
    by (simp add: norm_row_def rsqrt_def)
  have r: "rms (norm_row x) = sqrt ?q"
    by (simp only: rms_def mean_square_norm_row)
  have sq: "(rms (norm_row x))\<^sup>2 = ?q"
    unfolding r using q0 by (rule real_sqrt_pow2)
  have lt: "rms (norm_row x) < 1"
    unfolding r using q1 by simp
  have low: "1 - ?e / ?m \<le> rms (norm_row x)" if m: "0 < ?m"
  proof -
    have "1 - ?e / ?m \<le> 1 - ?e / (?m + ?e)"
      using m e0 by (simp add: frac_le)
    also have "1 - ?e / (?m + ?e) = ?q"
      using pos by (simp add: field_simps)
    also have "?q \<le> sqrt ?q"
      using q0 q1 by (intro le_sqrt_unit) simp_all
    finally show ?thesis by (simp only: r)
  qed
  from formula sq lt low show ?thesis by blast
qed

text \<open>
  C8, as stated, fails: the non-zero vector \<open>[1e-4, 0, 0, 0]\<close> is normalised to a
  vector of root mean square below one half.
\<close>

theorem norm_row_rms_not_one:
  "[1 / 10000, 0, 0, 0] \<noteq> replicate 4 (0::real) \<and> rms (norm_row [1 / 10000, 0, 0, 0]) < 1 / 2"
proof -
  have m: "reduce_mean (map (\<lambda>u. u\<^sup>2) [1 / 10000, 0, 0, 0 :: real]) = 1 / 400000000"
    by (simp add: reduce_mean_def power2_eq_square)
  have "rms (norm_row [1 / 10000, 0, 0, 0]) = sqrt (1 / 5)"
    by (simp only: rms_def mean_square_norm_row m) simp
  also have "\<dots> < sqrt (1 / 4)" by (rule real_sqrt_less_mono) simp
  also have "sqrt (1 / 4 :: real) = 1 / 2"
    by (rule real_sqrt_unique) (simp_all add: power2_eq_square)
  finally show ?thesis by (simp add: numeral_eq_Suc)
qed

theorem norm_row_rms_witness:
  "[3, 4 :: real] \<noteq> [] \<and> 0 < reduce_mean (map (\<lambda>u. u\<^sup>2) [3, 4 :: real]) \<and>
   1 - (1 / 10 ^ 8) / (25 / 2) \<le> rms (norm_row [3, 4]) \<and> rms (norm_row [3, 4]) < 1"
proof -
  have m: "reduce_mean (map (\<lambda>u. u\<^sup>2) [3, 4 :: real]) = 25 / 2"
    by (simp add: reduce_mean_def)
  have p: "0 < reduce_mean (map (\<lambda>u. u\<^sup>2) [3, 4 :: real])"
    by (simp add: reduce_mean_def)
  have ne: "[3, 4 :: real] \<noteq> []" by simp
  from norm_row_rms [OF ne] p
  have "1 - (1 / 10 ^ 8) / reduce_mean (map (\<lambda>u. u\<^sup>2) [3, 4 :: real]) \<le> rms (norm_row [3, 4])"
    and "rms (norm_row [3, 4]) < 1"
    by blast+
  then have "1 - (1 / 10 ^ 8) / (25 / 2) \<le> rms (norm_row [3, 4])"
    and "rms (norm_row [3, 4]) < 1"
    by (simp_all only: m)
  with ne p show ?thesis by blast
qed

subsection \<open>The properties on the small configuration\<close>

lemma init_ok:
  "resolutions gp \<noteq> [] \<Longrightarrow> featuremaps gp \<noteq> [] \<Longrightarrow> hd (resolutions gp) = 4 \<Longrightarrow>
   \<exists>r. Renderer_init L gp = Inr r"
  by (cases "resolutions gp"; cases "featuremaps gp")
    (simp_all add: Renderer_init_def Synthesis_init_def SynthesisConstBlock_init_def Let_def)

lemma example_row:
  "Mapping_row (Mapping_init example_layers xd wd 2 n) v = [sum_list (norm_row v) + 1, 1]"
  by (simp add: Mapping_row_def Mapping_init_def example_layers_def numeral_2_eq_2)

lemma example_w_shape: "has_shape3 2 4 2 example_w"
  by (simp add: has_shape3_def example_w_def)

theorem truncation_trick_formula_witness:
  "\<exists>r. Renderer_init example_layers example_params = Inr r \<and>
       (0::nat) < length example_w \<and> length (example_w ! 0) = n_broadcast r \<and>
       truncation_trick r [0, 1] example_w ! 0 ! 0 ! 0 = 1 / 2 \<and>
       truncation_trick r [0, 1] example_w ! 0 ! 2 ! 0 = 5"
proof -
  from example_init obtain r where init: "Renderer_init example_layers example_params = Inr r"
    by blast
  have nb: "n_broadcast r = 4"
    using Renderer_init_fields(1) [OF init] by (simp add: example_params_def)
  have b: "(0::nat) < length example_w" by (simp add: example_w_def)
  have n: "length (example_w ! 0) = n_broadcast r" by (simp add: nb example_w_def)
  have i0: "0 < n_broadcast r" and i2: "2 < n_broadcast r" by (simp_all add: nb)
  have d0: "length (example_w ! 0 ! 0) = length [0, 1 :: real]"
    and d2: "length (example_w ! 0 ! 2) = length [0, 1 :: real]"
    and d: "0 < length [0, 1 :: real]"
    by (simp_all add: example_w_def)
  from truncation_trick_formula [OF init b n i0 d0 d]
  have "truncation_trick r [0, 1] example_w ! 0 ! 0 ! 0 = 1 / 2"
    by (simp add: example_params_def example_w_def)
  moreover from truncation_trick_formula [OF init b n i2 d2 d]
  have "truncation_trick r [0, 1] example_w ! 0 ! 2 ! 0 = 5"
    by (simp add: example_params_def example_w_def)
  ultimately show ?thesis using init b n by blast
qed


lemma example_width:
  assumes init: "Renderer_init example_layers gp = Inr r" and n: "n_mapping gp = 2"
    and w: "w_dim gp = 2"
  shows "length (Mapping_row (g_mapping r) v) = w_dim gp"
  by (simp add: Renderer_init_fields(4) [OF init] n w example_row)

theorem style_mixing_extremes_witness:
  "\<exists>r0 r1. Renderer_init example_layers (example_params\<lparr>style_mixing_prob := 0\<rparr>) = Inr r0 \<and>
     Renderer_init example_layers (example_params\<lparr>style_mixing_prob := 1\<rparr>) = Inr r1 \<and>
     has_shape3 (length example_x) (n_broadcast r0) 2 example_w \<and>
     list_all (\<lambda>depth. 0 < depth) (x_depth example_params) \<and>
     random_uniform_int 1 (n_broadcast r1) (draw_cutoff example_draws) = Inr 1 \<and>
     style_mixing_regularization r0 example_draws example_x example_w = Inr example_w \<and>
     (\<exists>x2 mixed. draw_random_x r1 example_draws example_x = Inr x2 \<and>
        style_mixing_regularization r1 example_draws example_x example_w = Inr mixed \<and>
        mixed ! 0 ! 0 = [1, 2] \<and>
        mixed ! 0 ! 1 = Mapping_call (g_mapping r1) x2 ! 0 ! 1 \<and>
        mixed ! 1 ! 3 = Mapping_call (g_mapping r1) x2 ! 1 ! 3)"
proof -
  let ?g0 = "example_params\<lparr>style_mixing_prob := 0\<rparr>"
  let ?g1 = "example_params\<lparr>style_mixing_prob := 1\<rparr>"
  obtain r0 where i0: "Renderer_init example_layers ?g0 = Inr r0"
    using init_ok [of ?g0 example_layers] by (auto simp: example_params_def)
  obtain r1 where i1: "Renderer_init example_layers ?g1 = Inr r1"
    using init_ok [of ?g1 example_layers] by (auto simp: example_params_def)
  have n0: "n_broadcast r0 = 4" and n1: "n_broadcast r1 = 4"
    using Renderer_init_fields(1) [OF i0] Renderer_init_fields(1) [OF i1]
    by (simp_all add: example_params_def)
  have depth: "x_depth ?g0 \<noteq> []" "x_depth ?g1 \<noteq> []"
    and positive: "list_all (\<lambda>depth. 0 < depth) (x_depth ?g0)"
      "list_all (\<lambda>depth. 0 < depth) (x_depth ?g1)"
    by (simp_all add: example_params_def)
  have u: "0 \<le> draw_u example_draws" "draw_u example_draws < 1"
    by (simp_all add: example_draws_def)
  have wd: "w_dim ?g0 = 2" "w_dim ?g1 = 2" and nm: "n_mapping ?g0 = 2" "n_mapping ?g1 = 2"
    by (simp_all add: example_params_def)
  have s0: "has_shape3 (length example_x) (n_broadcast r0) (w_dim ?g0) example_w"
    and s1: "has_shape3 (length example_x) (n_broadcast r1) (w_dim ?g1) example_w"
    by (simp_all add: has_shape3_def example_w_def example_x_def n0 n1 example_params_def)
  have p0: "style_mixing_prob ?g0 = 0"
    and p1: "style_mixing_prob ?g1 = 1 \<and>
      random_uniform_int 1 (n_broadcast r1) (draw_cutoff example_draws) = Inr 1"
    by (simp_all add: example_draws_def random_uniform_int_def n1)
  from style_mixing_extremes [OF i0 depth(1) positive(1) u example_width [OF i0 nm(1) wd(1)] s0] p0
  have a: "style_mixing_regularization r0 example_draws example_x example_w = Inr example_w"
    by blast
  from style_mixing_extremes [OF i1 depth(2) positive(2) u example_width [OF i1 nm(2) wd(2)] s1] p1
  obtain x2 mixed where x2: "draw_random_x r1 example_draws example_x = Inr x2"
    and m: "style_mixing_regularization r1 example_draws example_x example_w = Inr mixed"
    and all: "\<forall>b < length example_x. mixed ! b ! 0 = example_w ! b ! 0 \<and>
        (\<forall>i. 1 \<le> i \<and> i < n_broadcast r1 \<longrightarrow> mixed ! b ! i = Mapping_call (g_mapping r1) x2 ! b ! i)"
    by blast
  have b0: "0 < length example_x" and b1: "1 < length example_x" by (simp_all add: example_x_def)
  from all b0 have "mixed ! 0 ! 0 = example_w ! 0 ! 0" by blast
  then have c0: "mixed ! 0 ! 0 = [1, 2]" by (simp add: example_w_def)
  from all b0 n1 have c1: "mixed ! 0 ! 1 = Mapping_call (g_mapping r1) x2 ! 0 ! 1" by simp
  from all b1 n1 have c3: "mixed ! 1 ! 3 = Mapping_call (g_mapping r1) x2 ! 1 ! 3" by simp
  from s0 have "has_shape3 (length example_x) (n_broadcast r0) 2 example_w" by (simp add: wd)
  moreover have "list_all (\<lambda>depth. 0 < depth) (x_depth example_params)"
    by (simp add: example_params_def)
  ultimately show ?thesis using i0 i1 a x2 m c0 c1 c3 p1 by blast
qed

theorem w_avg_update_witness:
  "\<exists>r. Renderer_init example_layers example_params = Inr r \<and>
       length [0, 0 :: real] = w_dim example_params \<and> example_x \<noteq> [] \<and>
       truthy (PyBool True) \<and> \<not> truthy PyNone \<and>
       snd (call r example_draws [0, 0] example_x (PyBool True)) ! 1 = 1 / 2 \<and>
       snd (call r example_draws [0, 0] example_x PyNone) = [0, 0]"
proof -
  from example_init obtain r where init: "Renderer_init example_layers example_params = Inr r"
    by blast
  have len: "length [0, 0 :: real] = w_dim example_params"
    and batch: "example_x \<noteq> []"
    and wd: "w_dim example_params = 2" and nm: "n_mapping example_params = 2"
    by (simp_all add: example_params_def example_x_def)
  note upd = w_avg_update [OF init len batch example_width [OF init nm wd]]
  have gm: "g_mapping r = Mapping_init example_layers 2 2 2 (n_broadcast r)"
    using Renderer_init_fields(4) [OF init] by (simp add: example_params_def)
  have nb: "n_broadcast r = 4"
    using Renderer_init_fields(1) [OF init] by (simp add: example_params_def)
  have rows: "Mapping_call (g_mapping r) example_x =
      map (\<lambda>v. replicate 4 (Mapping_row (g_mapping r) v)) example_x"
    by (simp add: Mapping_call_rows init_mapping_n [OF init] nb)
  have row: "Mapping_row (g_mapping r) v = [sum_list (norm_row v) + 1, 1]" for v
    by (simp only: gm example_row)
  have mean: "reduce_mean (map (\<lambda>s. s ! 0 ! 1) (Mapping_call (g_mapping r) example_x)) = 1"
    by (simp only: rows) (simp add: row example_x_def reduce_mean_def)
  have "1 < w_dim example_params" by (simp add: wd)
  with upd [of "PyBool True" example_draws]
  have "snd (call r example_draws [0, 0] example_x (PyBool True)) ! 1 =
      w_ema_decay example_params * [0, 0] ! 1 + (1 - w_ema_decay example_params) *
        reduce_mean (map (\<lambda>s. s ! 0 ! 1) (Mapping_call (g_mapping r) example_x))"
    by simp
  then have "snd (call r example_draws [0, 0] example_x (PyBool True)) ! 1 =
      w_ema_decay example_params * [0, 0] ! 1 + (1 - w_ema_decay example_params) * 1"
    by (simp only: mean)
  then have a: "snd (call r example_draws [0, 0] example_x (PyBool True)) ! 1 = 1 / 2"
    by (simp add: example_params_def)
  from upd [of PyNone example_draws]
  have b: "snd (call r example_draws [0, 0] example_x PyNone) = [0, 0]" by simp
  from init len batch a b show ?thesis by simp
qed

theorem position0_unmixed_witness:
  "\<exists>r w'. Renderer_init example_layers example_params = Inr r \<and>
       truthy (PyInt 1) \<and> x_depth example_params \<noteq> [] \<and>
       list_all (\<lambda>depth. 0 < depth) (x_depth example_params) \<and>
       mixing_cutoff_index r example_draws = Inr 1 \<and>
       style_mixing_regularization r example_draws example_x
         (Mapping_call (g_mapping r) example_x) = Inr w' \<and>
       fst (call r example_draws [0, 0] example_x (PyInt 1)) = Synthesis_call (synthesis r) w' \<and>
       slice_pos w' 0 = slice_pos (Mapping_call (g_mapping r) example_x) 0"
proof -
  from example_init obtain r where init: "Renderer_init example_layers example_params = Inr r"
    by blast
  have nb: "n_broadcast r = 4"
    using Renderer_init_fields(1) [OF init] by (simp add: example_params_def)
  have p: "style_mixing_prob r = 9 / 10"
    using Renderer_init_fields(6) [OF init] by (simp add: example_params_def)
  have t: "truthy (PyInt 1)" by simp
  have depth: "x_depth example_params \<noteq> []"
    and positive: "list_all (\<lambda>depth. 0 < depth) (x_depth example_params)"
    and wd: "w_dim example_params = 2" and nm: "n_mapping example_params = 2"
    by (simp_all add: example_params_def)
  have k: "mixing_cutoff_index r example_draws = Inr 1"
    by (simp add: mixing_cutoff_index_def random_uniform_int_def example_draws_def nb p)
  from position0_unmixed [OF init t depth positive example_width [OF init nm wd],
      of example_draws example_x "[0, 0]"]
  obtain w' where "style_mixing_regularization r example_draws example_x
         (Mapping_call (g_mapping r) example_x) = Inr w'"
    and "fst (call r example_draws [0, 0] example_x (PyInt 1)) = Synthesis_call (synthesis r) w'"
    and "slice_pos w' 0 = slice_pos (Mapping_call (g_mapping r) example_x) 0"
    by blast
  with init t depth positive k show ?thesis by blast
qed

theorem falsy_training_is_inference_witness:
  "\<not> truthy PyNone \<and> \<not> truthy (PyInt 0) \<and> truthy (PyStr ''train'') \<and>
   (\<forall>r D D' w_avg x.
      call r D w_avg x PyNone =
        (Synthesis_call (synthesis r)
           (truncation_trick r w_avg (Mapping_call (g_mapping r) x)), w_avg) \<and>
      call r D w_avg x (PyInt 0) = call r D' w_avg x (PyBool False) \<and>
      call r D w_avg x (PyStr ''train'') = call r D w_avg x (PyBool True))"
proof -
  have a: "\<not> truthy PyNone" and b: "\<not> truthy (PyInt 0)" and c: "truthy (PyStr ''train'')"
    by simp_all
  show ?thesis
    using falsy_training_is_inference [of PyNone] falsy_training_is_inference [of "PyInt 0"]
      falsy_training_is_inference [of "PyStr ''train''"] a b c
    by blast
qed


lemma example_nets_wf:
  "list_all wf_weight (trainable_weights example_net)"
  "list_all wf_weight (trainable_weights example_src)"
  "list_all wf_weight (non_trainable_weights example_net)"
  "list_all wf_weight (non_trainable_weights example_src)"
  by (simp_all add: example_net_def example_src_def wf_weight_def)

lemma example_first_match:
  "find (\<lambda>sw. split_first_name (name (trainable_weights example_net ! 0)) =
               split_first_name (name sw)) (trainable_weights example_src)
     = Some \<lparr>name = ''g_1/dense/w:0'', shape = [2], val = [5, 7]\<rparr>"
  "find (\<lambda>sw. split_first_name (name (non_trainable_weights example_net ! 0)) =
               split_first_name (name sw)) (non_trainable_weights example_src)
     = Some \<lparr>name = ''g_1/w_avg:0'', shape = [1], val = [2]\<rparr>"
  by (simp_all add: example_net_def example_src_def split_first_name_def Let_def)

lemma example_sync_ok:
  "\<exists>self'. set_as_moving_average_of example_net example_src b c = Inr self'"
  by (simp add: set_as_moving_average_of_def example_net_def example_src_def
      split_first_name_def Let_def)

theorem ema_sync_extremes_witness:
  "\<exists>a b. set_as_moving_average_of example_net example_src 0 1 = Inr a \<and>
     set_as_moving_average_of example_net example_src 1 0 = Inr b \<and>
     list_all wf_weight (trainable_weights example_net) \<and>
     list_all wf_weight (trainable_weights example_src) \<and>
     list_all wf_weight (non_trainable_weights example_net) \<and>
     list_all wf_weight (non_trainable_weights example_src) \<and>
     val (trainable_weights a ! 0) = [5, 7] \<and>
     non_trainable_weights a = non_trainable_weights example_net \<and>
     trainable_weights b = trainable_weights example_net \<and>
     val (non_trainable_weights b ! 0) = [2]"
proof -
  from example_sync_ok obtain a where
    a: "set_as_moving_average_of example_net example_src 0 1 = Inr a" by blast
  from example_sync_ok obtain b where
    b: "set_as_moving_average_of example_net example_src 1 0 = Inr b" by blast
  have l: "0 < length (trainable_weights example_net)"
    "0 < length (non_trainable_weights example_net)"
    by (simp_all add: example_net_def)
  note ta = ema_sync_extremes [OF a example_nets_wf]
  note tb = ema_sync_extremes [OF b example_nets_wf]
  from ta l(1) example_first_match(1)
  have "val (trainable_weights a ! 0) =
      val \<lparr>name = ''g_1/dense/w:0'', shape = [2], val = [5, 7]\<rparr>"
    by blast
  then have a1: "val (trainable_weights a ! 0) = [5, 7]" by simp
  from ta have a2: "non_trainable_weights a = non_trainable_weights example_net" by blast
  from tb have b1: "trainable_weights b = trainable_weights example_net" by blast
  from tb l(2) example_first_match(2)
  have "val (non_trainable_weights b ! 0) =
      val \<lparr>name = ''g_1/w_avg:0'', shape = [1], val = [2]\<rparr>"
    by blast
  then have b2: "val (non_trainable_weights b ! 0) = [2]" by simp
  from a b example_nets_wf a1 a2 b1 b2 show ?thesis by blast
qed

theorem ema_sync_by_name_witness:
  "CHR ''/'' \<notin> set ''g_1'' \<and> split_first_name ''g_1/dense/w:0'' = ''dense/w:0'' \<and>
   set_as_moving_average_of example_net example_src (1 / 2) 0 =
     Inr \<lparr>trainable_weights = [\<lparr>name = ''g/dense/w:0'', shape = [2], val = [3, 9 / 2]\<rparr>],
          non_trainable_weights = [\<lparr>name = ''g/w_avg:0'', shape = [1], val = [2]\<rparr>]\<rparr> \<and>
   set_as_moving_average_of example_net
     (example_src\<lparr>trainable_weights :=
        [\<lparr>name = ''g_1/dense/w:0'', shape = [3], val = [5, 7, 9]\<rparr>]\<rparr>) (1 / 2) 0
     = Inl AssertionError \<and>
   set_as_moving_average_of example_net (example_src\<lparr>trainable_weights := []\<rparr>) (1 / 2) 1
     = Inr example_net"
proof -
  have p: "CHR ''/'' \<notin> set ''g_1''" by simp
  from ema_sync_by_name [of "''g_1''" "''dense/w:0''" example_net example_src "1 / 2" 0] p
  have n: "split_first_name ''g_1/dense/w:0'' = ''dense/w:0''" by simp
  have s1: "set_as_moving_average_of example_net example_src (1 / 2) 0 =
     Inr \<lparr>trainable_weights = [\<lparr>name = ''g/dense/w:0'', shape = [2], val = [3, 9 / 2]\<rparr>],
          non_trainable_weights = [\<lparr>name = ''g/w_avg:0'', shape = [1], val = [2]\<rparr>]\<rparr>"
    by (subst conjunct2 [OF ema_sync_by_name [of "''g''" "''x''"]])
      (simp add: example_net_def example_src_def split_first_name_def Let_def lerp_def)
  have s2: "set_as_moving_average_of example_net
     (example_src\<lparr>trainable_weights :=
        [\<lparr>name = ''g_1/dense/w:0'', shape = [3], val = [5, 7, 9]\<rparr>]\<rparr>) (1 / 2) 0
     = Inl AssertionError"
    by (subst conjunct2 [OF ema_sync_by_name [of "''g''" "''x''"]])
      (simp add: example_net_def example_src_def split_first_name_def Let_def lerp_def)
  have s3: "set_as_moving_average_of example_net (example_src\<lparr>trainable_weights := []\<rparr>)
      (1 / 2) 1 = Inr example_net"
    by (subst conjunct2 [OF ema_sync_by_name [of "''g''" "''x''"]])
      (simp add: example_net_def example_src_def split_first_name_def Let_def lerp_def)
  from p n s1 s2 s3 show ?thesis by blast
qed

end
